theory Spec2Isabelle
  imports Main
begin

section \<open>Data model (shared/schema.ts)\<close>

text \<open>
  The tables of \<^verbatim>\<open>shared/schema.ts\<close>, one record per row type. Columns declared
  \<^verbatim>\<open>integer\<close> or \<^verbatim>\<open>serial\<close> are \<open>int\<close>, \<^verbatim>\<open>text\<close> columns are strings, nullable
  columns are options, and a \<^verbatim>\<open>timestamp\<close> is the number of milliseconds since the epoch.
  Field names carry a prefix for the table because several tables share column names.
\<close>

type_synonym timestamp = int

record user =
  u_id :: int
  u_username :: string
  u_password :: string
  u_name :: string
  u_role :: string
  u_region :: "string option"
  u_avatar :: "string option"
  u_specialtyId :: "int option"
  u_createdAt :: "timestamp option"

record stock_item =
  si_id :: int
  si_name :: string
  si_categoryId :: int
  si_specialtyId :: "int option"
  si_quantity :: int
  si_price :: "int option"
  si_expiry :: "timestamp option"
  si_uniqueNumber :: "string option"
  si_imageUrl :: "string option"
  si_notes :: "string option"
  si_createdAt :: "timestamp option"
  si_createdBy :: int

record stock_allocation =
  al_id :: int
  al_userId :: int
  al_stockItemId :: int
  al_quantity :: int
  al_allocatedAt :: "timestamp option"
  al_allocatedBy :: int

record stock_movement =
  mv_id :: int
  mv_stockItemId :: int
  mv_fromUserId :: "int option"
  mv_toUserId :: int
  mv_quantity :: int
  mv_notes :: "string option"
  mv_movedAt :: "timestamp option"
  mv_movedBy :: int

text \<open>
  The persisted state: the rows of the four tables, in insertion order, and the next value
  of each table's \<^verbatim>\<open>serial\<close> id sequence.
\<close>

record store =
  users :: "user list"
  stockItems :: "stock_item list"
  stockAllocations :: "stock_allocation list"
  stockMovements :: "stock_movement list"
  userSeq :: int
  stockItemSeq :: int
  allocationSeq :: int
  movementSeq :: int

definition emptyStore :: store where
  "emptyStore =
     \<lparr>users = [], stockItems = [], stockAllocations = [], stockMovements = [],
      userSeq = 1, stockItemSeq = 1, allocationSeq = 1, movementSeq = 1\<rparr>"

section \<open>Storage layer\<close>

text \<open>
  \<^verbatim>\<open>server/storage.ts\<close> is not among the source files: only its callers
  (\<^verbatim>\<open>server/routes.ts\<close>, \<^verbatim>\<open>server/auth.ts\<close>) and its test are. Its operations are
  therefore modelled from the specification and from the test.
\<close>

text \<open>Modelled from the spec: \<^verbatim>\<open>storage.getUser(id)\<close>, the row with that id, if any.\<close>

definition getUser :: "store \<Rightarrow> int \<Rightarrow> user option" where
  "getUser s uid = find (\<lambda>u. u_id u = uid) (users s)"

text \<open>Modelled from the spec: \<^verbatim>\<open>storage.getUserByUsername(username)\<close>.\<close>

definition getUserByUsername :: "store \<Rightarrow> string \<Rightarrow> user option" where
  "getUserByUsername s n = find (\<lambda>u. u_username u = n) (users s)"

text \<open>Modelled from the spec: \<^verbatim>\<open>storage.getStockItem(id)\<close>.\<close>

definition getStockItem :: "store \<Rightarrow> int \<Rightarrow> stock_item option" where
  "getStockItem s sid = find (\<lambda>i. si_id i = sid) (stockItems s)"

subsection \<open>The stock movement transaction\<close>

datatype error =
    NotFound
  | InvalidArgument
  | InsufficientStock "int option"
  | ZodError
  | TypeError
  | RangeError
  | SystemError string
  | UploadError
  | DatabaseError

text \<open>
  \<open>InsufficientStock\<close> names the holder that fell short: \<open>None\<close> is central inventory,
  \<open>Some u\<close> the source user. \<open>ZodError\<close> is the exception of a failed schema \<^verbatim>\<open>parse\<close>
  in a route handler; \<open>TypeError\<close> and \<open>RangeError\<close> are exceptions of the runtime;
  \<open>SystemError\<close> is a failed call of the file system, with its code; \<open>UploadError\<close> is
  the refusal of a file by the upload middleware, and \<open>DatabaseError\<close> the refusal of a
  statement by the database.
\<close>

record move_args =
  ma_stockItemId :: int
  ma_quantity :: int
  ma_fromUserId :: "int option"
  ma_toUserId :: int
  ma_movedBy :: int
  ma_notes :: "string option"

text \<open>
  Modelled from the spec: the quantity a user holds of an item, which is the user's
  allocation row for the item and 0 if there is none, and the sum of an item's allocations.
\<close>

definition findAllocation :: "store \<Rightarrow> int \<Rightarrow> int \<Rightarrow> stock_allocation option" where
  "findAllocation s uid sid =
     find (\<lambda>a. al_userId a = uid \<and> al_stockItemId a = sid) (stockAllocations s)"

definition userAllocation :: "store \<Rightarrow> int \<Rightarrow> int \<Rightarrow> int" where
  "userAllocation s uid sid =
     (case findAllocation s uid sid of None \<Rightarrow> 0 | Some a \<Rightarrow> al_quantity a)"

definition sumAllocations :: "store \<Rightarrow> int \<Rightarrow> int" where
  "sumAllocations s sid =
     sum_list (map al_quantity (filter (\<lambda>a. al_stockItemId a = sid) (stockAllocations s)))"

text \<open>
  Modelled from the spec: step 2 of \<open>moveStock\<close>, the single resolver of the quantity
  available at the source. Central inventory is not a row: it is the item's quantity minus
  the sum of the item's allocations.
\<close>

definition availableAtSource :: "store \<Rightarrow> stock_item \<Rightarrow> int option \<Rightarrow> int" where
  "availableAtSource s item src =
     (case src of
        None \<Rightarrow> si_quantity item - sumAllocations s (si_id item)
      | Some u \<Rightarrow> userAllocation s u (si_id item))"

text \<open>Changing one row: the first row that matches, as a keyed update does.\<close>

fun updateFirst :: "('a \<Rightarrow> bool) \<Rightarrow> ('a \<Rightarrow> 'a) \<Rightarrow> 'a list \<Rightarrow> 'a list" where
  "updateFirst P f [] = []"
| "updateFirst P f (x # xs) = (if P x then f x # xs else x # updateFirst P f xs)"

text \<open>
  Modelled from the spec: step 4. A source user's allocation is reduced; for central
  inventory nothing is stored.
\<close>

definition decrementSource :: "store \<Rightarrow> int \<Rightarrow> int option \<Rightarrow> int \<Rightarrow> store" where
  "decrementSource s sid src q =
     (case src of
        None \<Rightarrow> s
      | Some u \<Rightarrow>
          s\<lparr>stockAllocations :=
              updateFirst (\<lambda>a. al_userId a = u \<and> al_stockItemId a = sid)
                (\<lambda>a. a\<lparr>al_quantity := al_quantity a - q\<rparr>) (stockAllocations s)\<rparr>)"

text \<open>Modelled from the spec: step 5, increment the destination's allocation or create it.\<close>

definition incrementDestination ::
  "timestamp \<Rightarrow> store \<Rightarrow> int \<Rightarrow> int \<Rightarrow> int \<Rightarrow> int \<Rightarrow> store" where
  "incrementDestination now s sid dst q actor =
     (case findAllocation s dst sid of
        Some _ \<Rightarrow>
          s\<lparr>stockAllocations :=
              updateFirst (\<lambda>a. al_userId a = dst \<and> al_stockItemId a = sid)
                (\<lambda>a. a\<lparr>al_quantity := al_quantity a + q\<rparr>) (stockAllocations s)\<rparr>
      | None \<Rightarrow>
          s\<lparr>stockAllocations := stockAllocations s @
               [\<lparr>al_id = allocationSeq s, al_userId = dst, al_stockItemId = sid,
                 al_quantity = q, al_allocatedAt = Some now, al_allocatedBy = actor\<rparr>],
            allocationSeq := allocationSeq s + 1\<rparr>)"

text \<open>Modelled from the spec: step 6, append the movement record.\<close>

definition newMovement :: "timestamp \<Rightarrow> store \<Rightarrow> move_args \<Rightarrow> stock_movement" where
  "newMovement now s a =
     \<lparr>mv_id = movementSeq s, mv_stockItemId = ma_stockItemId a,
      mv_fromUserId = ma_fromUserId a, mv_toUserId = ma_toUserId a,
      mv_quantity = ma_quantity a, mv_notes = ma_notes a, mv_movedAt = Some now,
      mv_movedBy = ma_movedBy a\<rparr>"

definition appendMovement :: "store \<Rightarrow> stock_movement \<Rightarrow> store" where
  "appendMovement s m =
     s\<lparr>stockMovements := stockMovements s @ [m], movementSeq := movementSeq s + 1\<rparr>"

text \<open>
  Modelled from the spec: \<^verbatim>\<open>storage.executeStockMovementTransaction\<close>, the operation
  \<open>moveStock\<close> of section 4.1. The result is the created movement or the error, together
  with the store after the call. The arguments are validated first (a quantity that is not
  positive, then the stock item, then the destination user); the spec fixes the order of
  steps 1 to 7 only, and not which error is reported when several inputs are invalid at
  once.
\<close>

definition moveStock ::
  "timestamp \<Rightarrow> store \<Rightarrow> move_args \<Rightarrow> (error + stock_movement) \<times> store" where
  "moveStock now s a =
     (if ma_quantity a \<le> 0 then (Inl InvalidArgument, s)
      else case getStockItem s (ma_stockItemId a) of
        None \<Rightarrow> (Inl NotFound, s)
      | Some item \<Rightarrow>
         (case getUser s (ma_toUserId a) of
            None \<Rightarrow> (Inl InvalidArgument, s)
          | Some _ \<Rightarrow>
             if availableAtSource s item (ma_fromUserId a) < ma_quantity a
             then (Inl (InsufficientStock (ma_fromUserId a)), s)
             else
               let s1 = decrementSource s (si_id item) (ma_fromUserId a) (ma_quantity a);
                   s2 = incrementDestination now s1 (si_id item) (ma_toUserId a)
                          (ma_quantity a) (ma_movedBy a);
                   m = newMovement now s2 a
               in (Inr m, appendMovement s2 m)))"

text \<open>
  The allocation changes of a successful movement, steps 4 and 5 together; the row of the
  stock item that is found is the row with the requested id.
\<close>

definition moved :: "timestamp \<Rightarrow> store \<Rightarrow> move_args \<Rightarrow> store" where
  "moved now s a =
     incrementDestination now
       (decrementSource s (ma_stockItemId a) (ma_fromUserId a) (ma_quantity a))
       (ma_stockItemId a) (ma_toUserId a) (ma_quantity a) (ma_movedBy a)"

section \<open>JavaScript values\<close>

text \<open>
  Route handlers read request bodies and parameters, which are untyped JavaScript values.
  A finite number is written as the decimal that \<^verbatim>\<open>Number.prototype.toString\<close> prints for
  it: \<open>Dec m k\<close> is \<open>m / 10 ^ k\<close>, so \<^verbatim>\<open>2.5\<close> is \<open>Dec 25 1\<close>. Integers are kept exact.
  Only scalar values are modelled; strings are ASCII.
\<close>

datatype jsnum = NaN | PosInf | NegInf | Dec int nat

datatype jsval = JUndefined | JNull | JBool bool | JNum jsnum | JStr string

text \<open>The condition of \<^verbatim>\<open>if (v)\<close>: \<^verbatim>\<open>ToBoolean\<close>.\<close>

fun truthy :: "jsval \<Rightarrow> bool" where
  "truthy JUndefined = False"
| "truthy JNull = False"
| "truthy (JBool b) = b"
| "truthy (JNum NaN) = False"
| "truthy (JNum (Dec m k)) = (m \<noteq> 0)"
| "truthy (JNum PosInf) = True"
| "truthy (JNum NegInf) = True"
| "truthy (JStr s) = (s \<noteq> [])"

definition isInteger :: "jsnum \<Rightarrow> bool" where
  "isInteger n = (case n of Dec m k \<Rightarrow> m mod 10 ^ k = 0 | _ \<Rightarrow> False)"

definition isWhiteSpace :: "char \<Rightarrow> bool" where
  "isWhiteSpace c = (c \<in> {CHR 0x09, CHR 0x0A, CHR 0x0B, CHR 0x0C, CHR 0x0D, CHR 0x20})"

text \<open>The value of a character as a digit, 36 when it is none.\<close>

definition digitValue :: "char \<Rightarrow> nat" where
  "digitValue c =
     (let n = (of_char c :: nat) in
      if 48 \<le> n \<and> n \<le> 57 then n - 48
      else if 97 \<le> n \<and> n \<le> 122 then n - 87
      else if 65 \<le> n \<and> n \<le> 90 then n - 55
      else 36)"

definition digitsValue :: "nat \<Rightarrow> string \<Rightarrow> nat" where
  "digitsValue R z = foldl (\<lambda>acc c. acc * R + digitValue c) 0 z"

text \<open>
  \<^verbatim>\<open>parseInt(string)\<close> with no radix: leading white space is skipped, a sign is read, a
  prefix \<^verbatim>\<open>0x\<close> selects radix 16, and the longest run of digits is the result; \<open>NaN\<close>
  when that run is empty. Whatever follows the digits is ignored.
\<close>

definition parseIntString :: "string \<Rightarrow> jsnum" where
  "parseIntString s =
     (let s0 = dropWhile isWhiteSpace s;
          neg = (take 1 s0 = ''-'');
          s1 = (if take 1 s0 = ''-'' \<or> take 1 s0 = ''+'' then drop 1 s0 else s0);
          hex = (take 2 s1 = ''0x'' \<or> take 2 s1 = ''0X'');
          R = (if hex then 16 else 10);
          s2 = (if hex then drop 2 s1 else s1);
          z = takeWhile (\<lambda>c. digitValue c < R) s2
      in if z = [] then NaN
         else Dec ((if neg then - 1 else 1) * int (digitsValue R z)) 0)"

text \<open>The first decimal digit of a positive integer.\<close>

function leadingDigit :: "int \<Rightarrow> int" where
  "leadingDigit n = (if n < 10 then n else leadingDigit (n div 10))"
  by pat_completeness auto
termination
  by (relation "measure nat") auto

declare leadingDigit.simps [simp del]

text \<open>
  \<^verbatim>\<open>parseInt(number)\<close> parses the number's string. A number printed without an exponent
  (zero, or of magnitude from \<open>10^-6\<close> up to but excluding \<open>10^21\<close>) is cut at the decimal
  point, which truncates it towards zero; a number printed with an exponent gives its
  first digit. \<open>NaN\<close> and the infinities print as words and give \<open>NaN\<close>.
\<close>

definition parseIntNumber :: "jsnum \<Rightarrow> jsnum" where
  "parseIntNumber n =
     (case n of
        Dec m k \<Rightarrow>
          if m = 0 then Dec 0 0
          else if 10 ^ k \<le> \<bar>m\<bar> * 10 ^ 6 \<and> \<bar>m\<bar> < 10 ^ (21 + k)
          then Dec (sgn m * (\<bar>m\<bar> div 10 ^ k)) 0
          else Dec (sgn m * leadingDigit \<bar>m\<bar>) 0
      | _ \<Rightarrow> NaN)"

fun parseInt :: "jsval \<Rightarrow> jsnum" where
  "parseInt (JStr s) = parseIntString s"
| "parseInt (JNum n) = parseIntNumber n"
| "parseInt JUndefined = NaN"
| "parseInt JNull = NaN"
| "parseInt (JBool b) = NaN"

text \<open>
  A number that prints without an exponent, and its truncation towards zero.
\<close>

definition printsPlain :: "int \<Rightarrow> nat \<Rightarrow> bool" where
  "printsPlain m k = (m = 0 \<or> 10 ^ k \<le> \<bar>m\<bar> * 10 ^ 6 \<and> \<bar>m\<bar> < 10 ^ (21 + k))"

definition truncated :: "int \<Rightarrow> nat \<Rightarrow> int" where
  "truncated m k = sgn m * (\<bar>m\<bar> div 10 ^ k)"

section \<open>HTTP responses\<close>

text \<open>
  A JSON object is the list of its properties. A handler either sends a response (status
  and body) or passes an exception to the application's error middleware with
  \<^verbatim>\<open>next(error)\<close>; that middleware is not among the source files.
\<close>

type_synonym jsobj = "(string \<times> jsval) list"

datatype body =
    NoBody
  | Message string
  | Text string
  | MovementJson stock_movement
  | ItemJson stock_item
  | ItemsJson "stock_item list"
  | UserJson jsobj
  | UsersJson "jsobj list"

datatype outcome = Respond nat body | Next error

text \<open>A middleware lets the request through or answers it.\<close>

datatype gate = Pass | Reject nat body

section \<open>Authentication and permissions (server/auth.ts)\<close>

text \<open>
  \<^verbatim>\<open>req.isAuthenticated()\<close> holds when the session carries a user; \<^verbatim>\<open>req.user\<close> is
  then that user, and \<open>None\<close> otherwise.
\<close>

definition isAuthenticated :: "user option \<Rightarrow> gate" where
  "isAuthenticated reqUser =
     (case reqUser of Some _ \<Rightarrow> Pass | None \<Rightarrow> Reject 401 (Message ''Unauthorized''))"

text \<open>
  The permission middleware \<^verbatim>\<open>hasPermission(permission)\<close>. Its first argument stands for
  \<^verbatim>\<open>storage.hasPermission\<close>, which it calls with the user's id.
\<close>

definition hasPermission ::
  "(int \<Rightarrow> string \<Rightarrow> bool) \<Rightarrow> string \<Rightarrow> user option \<Rightarrow> gate" where
  "hasPermission storageHasPermission permission reqUser =
     (case reqUser of
        None \<Rightarrow> Reject 401 (Message ''Unauthorized'')
      | Some u \<Rightarrow>
          if u_role u = ''ceo'' then Pass
          else if storageHasPermission (u_id u) permission then Pass
          else Reject 403 (Message ''Forbidden: Insufficient permissions''))"

text \<open>The table \<^verbatim>\<open>ROLE_PERMISSIONS\<close> of \<^verbatim>\<open>shared/schema.ts\<close>.\<close>

definition ROLE_PERMISSIONS :: "(string \<times> (string \<times> bool) list) list" where
  "ROLE_PERMISSIONS =
    [(''ceo'',
       [(''canViewAll'', True), (''canAddItems'', True), (''canEditItems'', True),
        (''canRemoveItems'', True), (''canMoveStock'', True), (''canManageUsers'', True),
        (''canViewReports'', True), (''canAccessSettings'', True),
        (''canManageSpecialties'', True), (''canSeeAllSpecialties'', True)]),
     (''marketer'',
       [(''canViewAll'', False), (''canAddItems'', True), (''canEditItems'', True),
        (''canRemoveItems'', True), (''canMoveStock'', True), (''canManageUsers'', False),
        (''canViewReports'', False), (''canAccessSettings'', False),
        (''canManageSpecialties'', False), (''canSeeAllSpecialties'', False)]),
     (''salesManager'',
       [(''canViewAll'', False), (''canAddItems'', True), (''canEditItems'', True),
        (''canRemoveItems'', True), (''canMoveStock'', True), (''canManageUsers'', False),
        (''canViewReports'', False), (''canAccessSettings'', False),
        (''canManageSpecialties'', False), (''canSeeAllSpecialties'', False)]),
     (''stockManager'',
       [(''canViewAll'', False), (''canAddItems'', True), (''canEditItems'', True),
        (''canRemoveItems'', True), (''canMoveStock'', False), (''canManageUsers'', False),
        (''canViewReports'', False), (''canAccessSettings'', True),
        (''canManageSpecialties'', False), (''canSeeAllSpecialties'', False)]),
     (''admin'',
       [(''canViewAll'', True), (''canAddItems'', True), (''canEditItems'', True),
        (''canRemoveItems'', True), (''canMoveStock'', False), (''canManageUsers'', True),
        (''canViewReports'', True), (''canAccessSettings'', True),
        (''canManageSpecialties'', True), (''canSeeAllSpecialties'', True)]),
     (''medicalRep'',
       [(''canViewAll'', False), (''canAddItems'', False), (''canEditItems'', False),
        (''canRemoveItems'', False), (''canMoveStock'', False), (''canManageUsers'', False),
        (''canViewReports'', False), (''canAccessSettings'', False),
        (''canManageSpecialties'', False), (''canSeeAllSpecialties'', False)])]"

text \<open>
  Modelled from the spec: the lookup of \<^verbatim>\<open>storage.hasPermission(userId, permissionName)\<close>
  in a role table, \<open>False\<close> for a role or a permission name the table does not have.
\<close>

definition lookupPermission ::
  "(string \<times> (string \<times> bool) list) list \<Rightarrow> string \<Rightarrow> string \<Rightarrow> bool" where
  "lookupPermission table r permission =
     (case map_of table r of
        None \<Rightarrow> False
      | Some flags \<Rightarrow> (case map_of flags permission of None \<Rightarrow> False | Some b \<Rightarrow> b))"

text \<open>
  Modelled from the spec: \<^verbatim>\<open>storage.hasPermission\<close> resolves the user's role and looks
  the flag up; a user id that resolves to no user has no role and is denied.
\<close>

definition storageHasPermission :: "store \<Rightarrow> int \<Rightarrow> string \<Rightarrow> bool" where
  "storageHasPermission s uid permission =
     (case getUser s uid of
        None \<Rightarrow> False
      | Some u \<Rightarrow> lookupPermission ROLE_PERMISSIONS (u_role u) permission)"

text \<open>The permission names of the table.\<close>

definition permissionNames :: "string list" where
  "permissionNames =
     [''canViewAll'', ''canAddItems'', ''canEditItems'', ''canRemoveItems'', ''canMoveStock'',
      ''canManageUsers'', ''canViewReports'', ''canAccessSettings'', ''canManageSpecialties'',
      ''canSeeAllSpecialties'']"

section \<open>Routes (server/routes.ts)\<close>

text \<open>Middlewares run in order; the first that answers ends the request.\<close>

fun runGates :: "gate list \<Rightarrow> gate" where
  "runGates [] = Pass"
| "runGates (Pass # gs) = runGates gs"
| "runGates (Reject st b # gs) = Reject st b"

subsection \<open>POST /api/movements\<close>

record movement_body =
  mb_stockItemId :: jsval
  mb_fromUserId :: jsval
  mb_toUserId :: jsval
  mb_quantity :: jsval
  mb_notes :: jsval

text \<open>
  The handler's conversion of the body, field by field: \<^verbatim>\<open>if (v) v = parseInt(v)\<close>, and
  for \<^verbatim>\<open>fromUserId\<close> the number when \<^verbatim>\<open>parseInt\<close> gives one, \<^verbatim>\<open>null\<close> otherwise.
\<close>

definition coerceField :: "jsval \<Rightarrow> jsval" where
  "coerceField v = (if truthy v then JNum (parseInt v) else v)"

definition coerceFromUserId :: "jsval \<Rightarrow> jsval" where
  "coerceFromUserId v =
     (if truthy v \<and> parseInt v \<noteq> NaN then JNum (parseInt v) else JNull)"

definition coerceMovementBody :: "movement_body \<Rightarrow> movement_body" where
  "coerceMovementBody b =
     b\<lparr>mb_stockItemId := coerceField (mb_stockItemId b),
       mb_fromUserId := coerceFromUserId (mb_fromUserId b),
       mb_toUserId := coerceField (mb_toUserId b),
       mb_quantity := coerceField (mb_quantity b)\<rparr>"

text \<open>
  \<^verbatim>\<open>insertStockMovementSchema\<close> is generated by \<^verbatim>\<open>createInsertSchema\<close> from the table:
  a number for each \<^verbatim>\<open>integer\<close> column, required when the column is \<^verbatim>\<open>notNull\<close>, and a
  string for \<^verbatim>\<open>notes\<close>. It has no check of the sign of \<^verbatim>\<open>quantity\<close>. After the
  handler's conversion a number that reaches the schema is an integer or \<open>NaN\<close>.
\<close>

definition zNumber :: "jsval \<Rightarrow> int option" where
  "zNumber v =
     (case v of
        JNum (Dec m k) \<Rightarrow> if m mod 10 ^ k = 0 then Some (m div 10 ^ k) else None
      | _ \<Rightarrow> None)"

definition zNullableNumber :: "jsval \<Rightarrow> int option option" where
  "zNullableNumber v =
     (case v of
        JNull \<Rightarrow> Some None
      | JUndefined \<Rightarrow> Some None
      | _ \<Rightarrow> (case zNumber v of None \<Rightarrow> None | Some n \<Rightarrow> Some (Some n)))"

definition zNullableString :: "jsval \<Rightarrow> string option option" where
  "zNullableString v =
     (case v of
        JNull \<Rightarrow> Some None
      | JUndefined \<Rightarrow> Some None
      | JStr s \<Rightarrow> Some (Some s)
      | _ \<Rightarrow> None)"

text \<open>
  The parse of the converted body, with \<^verbatim>\<open>movedBy\<close> set to the acting user, giving the
  arguments the handler passes to the transaction (\<^verbatim>\<open>notes\<close> null becomes undefined).
  \<open>None\<close> is a \<^verbatim>\<open>ZodError\<close>.
\<close>

definition insertStockMovementSchema :: "movement_body \<Rightarrow> int \<Rightarrow> move_args option" where
  "insertStockMovementSchema b movedBy =
     (case zNumber (mb_stockItemId b) of
        None \<Rightarrow> None
      | Some sid \<Rightarrow>
     (case zNullableNumber (mb_fromUserId b) of
        None \<Rightarrow> None
      | Some src \<Rightarrow>
     (case zNumber (mb_toUserId b) of
        None \<Rightarrow> None
      | Some dst \<Rightarrow>
     (case zNumber (mb_quantity b) of
        None \<Rightarrow> None
      | Some q \<Rightarrow>
     (case zNullableString (mb_notes b) of
        None \<Rightarrow> None
      | Some notes \<Rightarrow>
          Some \<lparr>ma_stockItemId = sid, ma_quantity = q, ma_fromUserId = src,
                ma_toUserId = dst, ma_movedBy = movedBy, ma_notes = notes\<rparr>)))))"

text \<open>
  The handler proper. Its first argument stands for
  \<^verbatim>\<open>storage.executeStockMovementTransaction\<close>: it returns the movement or the exception
  it throws, and the state it leaves.
\<close>

definition postMovementsHandler ::
  "('st \<Rightarrow> move_args \<Rightarrow> (error + stock_movement) \<times> 'st) \<Rightarrow> 'st \<Rightarrow> user \<Rightarrow> movement_body
    \<Rightarrow> outcome \<times> 'st" where
  "postMovementsHandler exec s u b =
     (case insertStockMovementSchema (coerceMovementBody b) (u_id u) of
        None \<Rightarrow> (Next ZodError, s)
      | Some a \<Rightarrow>
          (case exec s a of
             (Inl e, s') \<Rightarrow> (Next e, s')
           | (Inr m, s') \<Rightarrow> (Respond 201 (MovementJson m), s')))"

text \<open>
  The route: \<^verbatim>\<open>isAuthenticated\<close>, \<^verbatim>\<open>hasPermission("canMoveStock")\<close>, then the handler.
  \<open>perm\<close> stands for \<^verbatim>\<open>storage.hasPermission\<close>.
\<close>

definition postMovements ::
  "('st \<Rightarrow> int \<Rightarrow> string \<Rightarrow> bool) \<Rightarrow> ('st \<Rightarrow> move_args \<Rightarrow> (error + stock_movement) \<times> 'st)
    \<Rightarrow> 'st \<Rightarrow> user option \<Rightarrow> movement_body \<Rightarrow> outcome \<times> 'st" where
  "postMovements perm exec s reqUser b =
     (case runGates [isAuthenticated reqUser, hasPermission (perm s) ''canMoveStock'' reqUser] of
        Reject st bd \<Rightarrow> (Respond st bd, s)
      | Pass \<Rightarrow>
          (case reqUser of
             None \<Rightarrow> (Next TypeError, s)
           | Some u \<Rightarrow> postMovementsHandler exec s u b))"





subsection \<open>GET /api/stock-items/expiring\<close>

text \<open>A value of \<^verbatim>\<open>req.query\<close>: a string, an array or a nested object.\<close>

datatype qsval = QStr string | QArr "qsval list" | QObj "(string \<times> qsval) list"

text \<open>
  \<^verbatim>\<open>daysQuerySchema\<close>: the preprocessing step replaces a missing value and the empty
  string by \<^verbatim>\<open>"30"\<close>; then \<^verbatim>\<open>z.coerce.number().int().min(1)\<close> applies \<^verbatim>\<open>Number\<close>
  (the argument \<open>toNumber\<close>) and checks the result. \<open>None\<close> is a \<^verbatim>\<open>ZodError\<close>.
\<close>

definition daysPreprocess :: "qsval option \<Rightarrow> qsval" where
  "daysPreprocess v =
     (case v of None \<Rightarrow> QStr ''30'' | Some w \<Rightarrow> if w = QStr [] then QStr ''30'' else w)"

definition zCoerceIntMin :: "int \<Rightarrow> jsnum \<Rightarrow> int option" where
  "zCoerceIntMin lo n =
     (case n of
        Dec m k \<Rightarrow> if m mod 10 ^ k = 0 \<and> lo \<le> m div 10 ^ k then Some (m div 10 ^ k) else None
      | _ \<Rightarrow> None)"

definition daysQuerySchema :: "(qsval \<Rightarrow> jsnum) \<Rightarrow> qsval option \<Rightarrow> int option" where
  "daysQuerySchema toNumber v = zCoerceIntMin 1 (toNumber (daysPreprocess v))"

definition msPerDay :: int where
  "msPerDay = 24 * 60 * 60 * 1000"

text \<open>
  Modelled from the spec: \<^verbatim>\<open>storage.getExpiringItems(days)\<close>, the stock items whose expiry
  timestamp lies in \<open>[now, now + days]\<close>.
\<close>

definition expiresWithin :: "timestamp \<Rightarrow> int \<Rightarrow> stock_item \<Rightarrow> bool" where
  "expiresWithin now days i =
     (case si_expiry i of None \<Rightarrow> False | Some t \<Rightarrow> now \<le> t \<and> t \<le> now + days * msPerDay)"

definition getExpiringItems :: "timestamp \<Rightarrow> store \<Rightarrow> int \<Rightarrow> stock_item list" where
  "getExpiringItems now s days = filter (expiresWithin now days) (stockItems s)"

text \<open>The route: \<^verbatim>\<open>isAuthenticated\<close>, then parse, query and \<^verbatim>\<open>res.json(items)\<close>.\<close>

definition getExpiring ::
  "(qsval \<Rightarrow> jsnum) \<Rightarrow> ('st \<Rightarrow> int \<Rightarrow> stock_item list) \<Rightarrow> 'st \<Rightarrow> user option \<Rightarrow> qsval option
    \<Rightarrow> outcome" where
  "getExpiring toNumber expiring s reqUser days =
     (case runGates [isAuthenticated reqUser] of
        Reject st bd \<Rightarrow> Respond st bd
      | Pass \<Rightarrow>
          (case daysQuerySchema toNumber days of
             None \<Rightarrow> Next ZodError
           | Some d \<Rightarrow> Respond 200 (ItemsJson (expiring s d))))"

subsection \<open>DELETE /api/stock-items/:id\<close>

text \<open>
  The handler works on the store and on the files of the server. The file system maps a
  path to what is found there, if anything is: a regular file, a regular file that the
  server is not permitted to remove, or a directory. \<^verbatim>\<open>fs.existsSync\<close> holds of a
  path where something is found, a directory included; \<^verbatim>\<open>fs.unlinkSync\<close> removes a
  regular file, and throws on a file it may not remove (with the code \<^verbatim>\<open>EACCES\<close>), on
  a directory (with the code \<^verbatim>\<open>EISDIR\<close>, on Linux) and on a path where nothing is
  found. \<^verbatim>\<open>path.join\<close> is the argument \<open>pathJoin\<close> and \<^verbatim>\<open>process.cwd()\<close> the
  argument \<open>cwd\<close>.
\<close>

datatype fs_entry = RegularFile | LockedFile | Directory

type_synonym file_system = "string \<Rightarrow> fs_entry option"

record server =
  sv_store :: store
  sv_files :: file_system

definition existsSync :: "file_system \<Rightarrow> string \<Rightarrow> bool" where
  "existsSync files p = (files p \<noteq> None)"

definition unlinkSync :: "file_system \<Rightarrow> string \<Rightarrow> error + file_system" where
  "unlinkSync files p =
     (case files p of
        Some RegularFile \<Rightarrow> Inr (files(p := None))
      | Some LockedFile \<Rightarrow> Inl (SystemError ''EACCES'')
      | Some Directory \<Rightarrow> Inl (SystemError ''EISDIR'')
      | None \<Rightarrow> Inl (SystemError ''ENOENT''))"

text \<open>\<^verbatim>\<open>imageUrl.replace(/^\/uploads\//, 'uploads/')\<close>.\<close>

definition replaceUploadsPrefix :: "string \<Rightarrow> string" where
  "replaceUploadsPrefix url =
     (if take 9 url = ''/uploads/'' then ''uploads/'' @ drop 9 url else url)"

definition imagePath :: "(string \<Rightarrow> string \<Rightarrow> string) \<Rightarrow> string \<Rightarrow> string \<Rightarrow> string" where
  "imagePath pathJoin cwd url = pathJoin cwd (replaceUploadsPrefix url)"

text \<open>
  Modelled from the spec: the storage calls of the handler, on the id that \<^verbatim>\<open>parseInt\<close>
  returned. No row has the id \<open>NaN\<close>. \<^verbatim>\<open>deleteStockItem\<close> removes the row and reports
  whether there was one.
\<close>

definition rowId :: "jsnum \<Rightarrow> int option" where
  "rowId n =
     (case n of
        Dec m k \<Rightarrow> if m mod 10 ^ k = 0 then Some (m div 10 ^ k) else None
      | _ \<Rightarrow> None)"

definition getStockItemJs :: "store \<Rightarrow> jsnum \<Rightarrow> stock_item option" where
  "getStockItemJs s n = (case rowId n of None \<Rightarrow> None | Some i \<Rightarrow> getStockItem s i)"

definition deleteStockItem :: "store \<Rightarrow> jsnum \<Rightarrow> bool \<times> store" where
  "deleteStockItem s n =
     (case rowId n of
        None \<Rightarrow> (False, s)
      | Some i \<Rightarrow>
          (getStockItem s i \<noteq> None,
           s\<lparr>stockItems := filter (\<lambda>x. si_id x \<noteq> i) (stockItems s)\<rparr>))"

text \<open>
  The removal of an image: \<^verbatim>\<open>if (imageUrl)\<close>, for a URL that is neither null nor
  empty, then \<^verbatim>\<open>if (fs.existsSync(imagePath)) fs.unlinkSync(imagePath)\<close>. The result
  is the file system after it, or the exception of \<^verbatim>\<open>unlinkSync\<close>.
\<close>

definition unlinkImage ::
  "(string \<Rightarrow> string \<Rightarrow> string) \<Rightarrow> string \<Rightarrow> string option \<Rightarrow> file_system
    \<Rightarrow> error + file_system" where
  "unlinkImage pathJoin cwd imageUrl files =
     (case imageUrl of
        None \<Rightarrow> Inr files
      | Some url \<Rightarrow>
          if url = [] then Inr files
          else if existsSync files (imagePath pathJoin cwd url)
          then unlinkSync files (imagePath pathJoin cwd url)
          else Inr files)"

text \<open>
  The handler. An exception of the image removal is caught and passed to \<^verbatim>\<open>next\<close>,
  before \<^verbatim>\<open>storage.deleteStockItem\<close> is reached.
\<close>

definition deleteStockItemHandler ::
  "(string \<Rightarrow> string \<Rightarrow> string) \<Rightarrow> string \<Rightarrow> server \<Rightarrow> string \<Rightarrow> outcome \<times> server" where
  "deleteStockItemHandler pathJoin cwd sv idParam =
     (let i = parseInt (JStr idParam) in
      case getStockItemJs (sv_store sv) i of
        None \<Rightarrow> (Respond 404 (Message ''Stock item not found''), sv)
      | Some item \<Rightarrow>
          (case unlinkImage pathJoin cwd (si_imageUrl item) (sv_files sv) of
             Inl e \<Rightarrow> (Next e, sv)
           | Inr files' \<Rightarrow>
               (let (success, store') = deleteStockItem (sv_store sv) i;
                    sv' = \<lparr>sv_store = store', sv_files = files'\<rparr>
                in if \<not> success then (Respond 404 (Message ''Stock item not found''), sv')
                   else (Respond 204 NoBody, sv'))))"

text \<open>The middlewares of the route.\<close>

definition removeGates :: "server \<Rightarrow> user option \<Rightarrow> gate list" where
  "removeGates sv reqUser =
     [isAuthenticated reqUser,
      hasPermission (storageHasPermission (sv_store sv)) ''canRemoveItems'' reqUser]"

definition deleteStockItemRoute ::
  "(string \<Rightarrow> string \<Rightarrow> string) \<Rightarrow> string \<Rightarrow> server \<Rightarrow> user option \<Rightarrow> string
    \<Rightarrow> outcome \<times> server" where
  "deleteStockItemRoute pathJoin cwd sv reqUser idParam =
     (case runGates (removeGates sv reqUser) of
        Reject st bd \<Rightarrow> (Respond st bd, sv)
      | Pass \<Rightarrow> deleteStockItemHandler pathJoin cwd sv idParam)"

subsection \<open>PUT /api/stock-items/:id\<close>

text \<open>
  The body of the request, with one property for each column of the table that a client
  sets; \<open>JUndefined\<close> is a property that is not sent. Any other property of the body is
  passed to the storage layer as it is, and is not modelled.
\<close>

record item_body =
  ib_name :: jsval
  ib_categoryId :: jsval
  ib_specialtyId :: jsval
  ib_quantity :: jsval
  ib_price :: jsval
  ib_expiry :: jsval
  ib_uniqueNumber :: jsval
  ib_imageUrl :: jsval
  ib_notes :: jsval

text \<open>
  The handler's conversions: \<^verbatim>\<open>v !== undefined ? parseInt(v) : undefined\<close> for
  \<^verbatim>\<open>quantity\<close> and \<^verbatim>\<open>categoryId\<close>, and the same with
  \<^verbatim>\<open>Math.round(parseFloat(v) * 100)\<close>, the argument \<open>toCents\<close>, for \<^verbatim>\<open>price\<close>. There
  is no check of the result.
\<close>

definition parseIntIfDefined :: "jsval \<Rightarrow> jsval" where
  "parseIntIfDefined v = (if v = JUndefined then JUndefined else JNum (parseInt v))"

definition centsIfDefined :: "(jsval \<Rightarrow> jsnum) \<Rightarrow> jsval \<Rightarrow> jsval" where
  "centsIfDefined toCents v = (if v = JUndefined then JUndefined else JNum (toCents v))"

text \<open>
  The test of \<^verbatim>\<open>expiry\<close> against \<^verbatim>\<open>/^\d{4}-\d{2}-\d{2}T\d{2}:\d{2}:\d{2}/\<close>. In the
  pattern of \<open>matchesPrefix\<close> the letter \<^verbatim>\<open>d\<close> stands for a digit and every other
  character for itself. The string of a number or of a boolean does not match.
\<close>

definition isDigit :: "char \<Rightarrow> bool" where
  "isDigit c = (48 \<le> (of_char c :: nat) \<and> (of_char c :: nat) \<le> 57)"

fun matchesPrefix :: "string \<Rightarrow> string \<Rightarrow> bool" where
  "matchesPrefix [] s = True"
| "matchesPrefix (p # ps) [] = False"
| "matchesPrefix (p # ps) (c # cs) =
     ((if p = CHR ''d'' then isDigit c else c = p) \<and> matchesPrefix ps cs)"

definition isIsoDateTime :: "jsval \<Rightarrow> bool" where
  "isIsoDateTime v =
     (case v of JStr s \<Rightarrow> matchesPrefix ''dddd-dd-ddTdd:dd:dd'' s | _ \<Rightarrow> False)"

text \<open>
  A truthy \<^verbatim>\<open>expiry\<close> that is not in that format is replaced by
  \<^verbatim>\<open>new Date(expiry).toISOString()\<close>, the argument \<open>toISOString\<close>, and is deleted from
  the data when that throws (\<open>None\<close>).
\<close>

definition convertExpiry :: "(jsval \<Rightarrow> string option) \<Rightarrow> jsval \<Rightarrow> jsval" where
  "convertExpiry toISOString v =
     (if truthy v \<and> \<not> isIsoDateTime v
      then (case toISOString v of Some s \<Rightarrow> JStr s | None \<Rightarrow> JUndefined)
      else v)"

definition updateData ::
  "(jsval \<Rightarrow> jsnum) \<Rightarrow> (jsval \<Rightarrow> string option) \<Rightarrow> item_body \<Rightarrow> item_body" where
  "updateData toCents toISOString b =
     b\<lparr>ib_quantity := parseIntIfDefined (ib_quantity b),
       ib_categoryId := parseIntIfDefined (ib_categoryId b),
       ib_price := centsIfDefined toCents (ib_price b),
       ib_expiry := convertExpiry toISOString (ib_expiry b)\<rparr>"

text \<open>
  The end of the handler: \<^verbatim>\<open>storage.updateStockItem(id, updateData)\<close>, the argument
  \<open>update\<close>, then 404 when it returns nothing and the updated item otherwise.
\<close>

definition sendUpdated ::
  "(store \<Rightarrow> jsnum \<Rightarrow> item_body \<Rightarrow> (error + stock_item option) \<times> store) \<Rightarrow> server \<Rightarrow> jsnum
    \<Rightarrow> item_body \<Rightarrow> outcome \<times> server" where
  "sendUpdated update sv i d =
     (case update (sv_store sv) i d of
        (Inl e, st) \<Rightarrow> (Next e, sv\<lparr>sv_store := st\<rparr>)
      | (Inr None, st) \<Rightarrow>
          (Respond 404 (Message ''Stock item not found''), sv\<lparr>sv_store := st\<rparr>)
      | (Inr (Some item), st) \<Rightarrow> (Respond 200 (ItemJson item), sv\<lparr>sv_store := st\<rparr>))"

text \<open>
  The handler; \<open>file\<close> is the name under which the upload middleware stored the file of
  the request, if there is one. Then the image of the item as it is stored is removed
  first, as in the handler of \<^verbatim>\<open>DELETE\<close>.
\<close>

definition putStockItemHandler ::
  "(string \<Rightarrow> string \<Rightarrow> string) \<Rightarrow> string \<Rightarrow> (jsval \<Rightarrow> jsnum) \<Rightarrow> (jsval \<Rightarrow> string option)
    \<Rightarrow> (store \<Rightarrow> jsnum \<Rightarrow> item_body \<Rightarrow> (error + stock_item option) \<times> store)
    \<Rightarrow> server \<Rightarrow> string \<Rightarrow> item_body \<Rightarrow> string option \<Rightarrow> outcome \<times> server" where
  "putStockItemHandler pathJoin cwd toCents toISOString update sv idParam b file =
     (let i = parseInt (JStr idParam);
          d = updateData toCents toISOString b
      in case file of
           None \<Rightarrow> sendUpdated update sv i d
         | Some f \<Rightarrow>
             (case unlinkImage pathJoin cwd
                     (case getStockItemJs (sv_store sv) i of
                        None \<Rightarrow> None
                      | Some oldItem \<Rightarrow> si_imageUrl oldItem)
                     (sv_files sv) of
                Inl e \<Rightarrow> (Next e, sv)
              | Inr files' \<Rightarrow>
                  sendUpdated update (sv\<lparr>sv_files := files'\<rparr>) i
                    (d\<lparr>ib_imageUrl := JStr (''/uploads/'' @ f)\<rparr>)))"

text \<open>
  The route: \<^verbatim>\<open>isAuthenticated\<close>, \<^verbatim>\<open>hasPermission("canEditItems")\<close>, then
  \<^verbatim>\<open>upload.single("image")\<close>, which refuses the file of the request, or stores it in the
  directory \<^verbatim>\<open>uploads\<close> under a new name, or finds none; then the handler.
\<close>

datatype upload = NoFile | Stored string | Refused

definition editGates :: "server \<Rightarrow> user option \<Rightarrow> gate list" where
  "editGates sv reqUser =
     [isAuthenticated reqUser,
      hasPermission (storageHasPermission (sv_store sv)) ''canEditItems'' reqUser]"

definition putStockItemRoute ::
  "(string \<Rightarrow> string \<Rightarrow> string) \<Rightarrow> string \<Rightarrow> (jsval \<Rightarrow> jsnum) \<Rightarrow> (jsval \<Rightarrow> string option)
    \<Rightarrow> (store \<Rightarrow> jsnum \<Rightarrow> item_body \<Rightarrow> (error + stock_item option) \<times> store)
    \<Rightarrow> server \<Rightarrow> user option \<Rightarrow> string \<Rightarrow> item_body \<Rightarrow> upload \<Rightarrow> outcome \<times> server" where
  "putStockItemRoute pathJoin cwd toCents toISOString update sv reqUser idParam b up =
     (case runGates (editGates sv reqUser) of
        Reject st bd \<Rightarrow> (Respond st bd, sv)
      | Pass \<Rightarrow>
          (case up of
             Refused \<Rightarrow> (Next UploadError, sv)
           | NoFile \<Rightarrow>
               putStockItemHandler pathJoin cwd toCents toISOString update sv idParam b None
           | Stored f \<Rightarrow>
               putStockItemHandler pathJoin cwd toCents toISOString update
                 (sv\<lparr>sv_files :=
                      (sv_files sv)(pathJoin (pathJoin cwd ''uploads'') f \<mapsto> RegularFile)\<rparr>)
                 idParam b (Some f)))"

text \<open>
  Modelled from the spec: the value a column takes in an update, for each type of column of
  the table \<^verbatim>\<open>stock_items\<close>. A property that is not sent leaves the column as it is. A
  value that the column does not hold (a number that is no integer in an \<^verbatim>\<open>integer\<close>
  column, null in a column that is \<^verbatim>\<open>notNull\<close>) is refused, which is \<open>None\<close>. \<open>dateOf\<close>
  reads the date of a string.
\<close>

definition textColumn :: "jsval \<Rightarrow> string \<Rightarrow> string option" where
  "textColumn v old = (case v of JUndefined \<Rightarrow> Some old | JStr s \<Rightarrow> Some s | _ \<Rightarrow> None)"

definition integerColumn :: "jsval \<Rightarrow> int \<Rightarrow> int option" where
  "integerColumn v old = (case v of JUndefined \<Rightarrow> Some old | JNum n \<Rightarrow> rowId n | _ \<Rightarrow> None)"

definition nullableText :: "jsval \<Rightarrow> string option \<Rightarrow> string option option" where
  "nullableText v old =
     (case v of
        JUndefined \<Rightarrow> Some old
      | JNull \<Rightarrow> Some None
      | JStr s \<Rightarrow> Some (Some s)
      | _ \<Rightarrow> None)"

definition nullableInteger :: "jsval \<Rightarrow> int option \<Rightarrow> int option option" where
  "nullableInteger v old =
     (case v of
        JUndefined \<Rightarrow> Some old
      | JNull \<Rightarrow> Some None
      | JNum n \<Rightarrow> map_option Some (rowId n)
      | _ \<Rightarrow> None)"

definition nullableTimestamp ::
  "(string \<Rightarrow> timestamp option) \<Rightarrow> jsval \<Rightarrow> timestamp option \<Rightarrow> timestamp option option" where
  "nullableTimestamp dateOf v old =
     (case v of
        JUndefined \<Rightarrow> Some old
      | JNull \<Rightarrow> Some None
      | JStr s \<Rightarrow> map_option Some (dateOf s)
      | _ \<Rightarrow> None)"

text \<open>
  Modelled from the spec: \<^verbatim>\<open>storage.updateStockItem(id, data)\<close>, the direct edit of a
  stock item that section 3 of the specification mentions; \<^verbatim>\<open>server/storage.ts\<close> is not
  among the source files. The columns that the data name take the values of the data and
  the row is returned; nothing is returned when no row has the id, and the database
  refuses the statement when a column refuses its value.
\<close>

definition patchRow ::
  "(string \<Rightarrow> timestamp option) \<Rightarrow> item_body \<Rightarrow> stock_item \<Rightarrow> stock_item option" where
  "patchRow dateOf d i =
     Option.bind (textColumn (ib_name d) (si_name i)) (\<lambda>name.
     Option.bind (integerColumn (ib_categoryId d) (si_categoryId i)) (\<lambda>categoryId.
     Option.bind (nullableInteger (ib_specialtyId d) (si_specialtyId i)) (\<lambda>specialtyId.
     Option.bind (integerColumn (ib_quantity d) (si_quantity i)) (\<lambda>quantity.
     Option.bind (nullableInteger (ib_price d) (si_price i)) (\<lambda>price.
     Option.bind (nullableTimestamp dateOf (ib_expiry d) (si_expiry i)) (\<lambda>expiry.
     Option.bind (nullableText (ib_uniqueNumber d) (si_uniqueNumber i)) (\<lambda>uniqueNumber.
     Option.bind (nullableText (ib_imageUrl d) (si_imageUrl i)) (\<lambda>imageUrl.
     Option.bind (nullableText (ib_notes d) (si_notes i)) (\<lambda>notes.
       Some (i\<lparr>si_name := name, si_categoryId := categoryId, si_specialtyId := specialtyId,
               si_quantity := quantity, si_price := price, si_expiry := expiry,
               si_uniqueNumber := uniqueNumber, si_imageUrl := imageUrl,
               si_notes := notes\<rparr>))))))))))"

definition updateStockItem ::
  "(string \<Rightarrow> timestamp option) \<Rightarrow> store \<Rightarrow> jsnum \<Rightarrow> item_body
    \<Rightarrow> (error + stock_item option) \<times> store" where
  "updateStockItem dateOf s n d =
     (case getStockItemJs s n of
        None \<Rightarrow> (Inr None, s)
      | Some i \<Rightarrow>
          (case patchRow dateOf d i of
             None \<Rightarrow> (Inl DatabaseError, s)
           | Some i' \<Rightarrow>
               (Inr (Some i'),
                s\<lparr>stockItems :=
                    updateFirst (\<lambda>x. si_id x = si_id i) (\<lambda>_. i') (stockItems s)\<rparr>)))"

subsection \<open>User objects in responses\<close>

text \<open>
  A user row as the object \<^verbatim>\<open>res.json\<close> serialises, property by property (a date is
  shown by its time value), and the rest pattern \<^verbatim>\<open>const { password, ...rest } = user\<close>,
  which keeps every property but one.
\<close>

definition jsString :: "string option \<Rightarrow> jsval" where
  "jsString v = (case v of None \<Rightarrow> JNull | Some s \<Rightarrow> JStr s)"

definition jsInt :: "int option \<Rightarrow> jsval" where
  "jsInt v = (case v of None \<Rightarrow> JNull | Some n \<Rightarrow> JNum (Dec n 0))"

definition userJson :: "user \<Rightarrow> jsobj" where
  "userJson u =
     [(''id'', JNum (Dec (u_id u) 0)),
      (''username'', JStr (u_username u)),
      (''password'', JStr (u_password u)),
      (''name'', JStr (u_name u)),
      (''role'', JStr (u_role u)),
      (''region'', jsString (u_region u)),
      (''avatar'', jsString (u_avatar u)),
      (''specialtyId'', jsInt (u_specialtyId u)),
      (''createdAt'', jsInt (u_createdAt u))]"

definition omit :: "string \<Rightarrow> jsobj \<Rightarrow> jsobj" where
  "omit k obj = filter (\<lambda>p. fst p \<noteq> k) obj"

definition withoutPassword :: "user \<Rightarrow> jsobj" where
  "withoutPassword u = omit ''password'' (userJson u)"

definition jsGet :: "jsobj \<Rightarrow> string \<Rightarrow> jsval" where
  "jsGet obj k = (case map_of obj k of None \<Rightarrow> JUndefined | Some v \<Rightarrow> v)"

definition jsSet :: "jsobj \<Rightarrow> string \<Rightarrow> jsval \<Rightarrow> jsobj" where
  "jsSet obj k v = (if k \<in> fst ` set obj then map (\<lambda>p. if fst p = k then (k, v) else p) obj
                    else obj @ [(k, v)])"

text \<open>
  Whether a response body shows a password: a user object in it has the property
  \<^verbatim>\<open>password\<close>.
\<close>

definition hasPasswordKey :: "jsobj \<Rightarrow> bool" where
  "hasPasswordKey obj = (''password'' \<in> fst ` set obj)"

definition exposesPassword :: "body \<Rightarrow> bool" where
  "exposesPassword bd =
     (case bd of
        UserJson obj \<Rightarrow> hasPasswordKey obj
      | UsersJson objs \<Rightarrow> list_ex hasPasswordKey objs
      | _ \<Rightarrow> False)"

definition outcomeBody :: "outcome \<Rightarrow> body" where
  "outcomeBody out = (case out of Respond st bd \<Rightarrow> bd | Next e \<Rightarrow> NoBody)"

subsection \<open>Password hashing (server/auth.ts)\<close>

text \<open>
  Bytes are characters. \<^verbatim>\<open>scrypt\<close> and the bytes of \<^verbatim>\<open>randomBytes(16)\<close> are arguments.
  \<^verbatim>\<open>Buffer.toString("hex")\<close> writes two lower-case digits per byte;
  \<^verbatim>\<open>Buffer.from(s, "hex")\<close> reads pairs of digits and stops at the first pair that is
  not hexadecimal.
\<close>

definition hexDigit :: "nat \<Rightarrow> char" where
  "hexDigit n = (if n mod 16 < 10 then char_of (48 + n mod 16) else char_of (87 + n mod 16))"

definition hexEncode :: "string \<Rightarrow> string" where
  "hexEncode bs =
     concat (map (\<lambda>c. [hexDigit (of_char c div 16), hexDigit (of_char c mod 16)]) bs)"

fun hexDecode :: "string \<Rightarrow> string" where
  "hexDecode (a # b # r) =
     (if digitValue a < 16 \<and> digitValue b < 16
      then char_of (digitValue a * 16 + digitValue b) # hexDecode r
      else [])"
| "hexDecode r = []"

definition hashPassword :: "(string \<Rightarrow> string \<Rightarrow> nat \<Rightarrow> string) \<Rightarrow> string \<Rightarrow> string \<Rightarrow> string" where
  "hashPassword scrypt saltBytes password =
     (let salt = hexEncode saltBytes;
          buf = scrypt password salt 64
      in hexEncode buf @ ''.'' @ salt)"

text \<open>
  \<^verbatim>\<open>stored.split(".")\<close> and the destructuring of its first two parts; the second is
  undefined when the stored string has no dot.
\<close>

definition splitHashed :: "string \<Rightarrow> string" where
  "splitHashed stored = takeWhile (\<lambda>c. c \<noteq> CHR ''.'') stored"

definition splitSalt :: "string \<Rightarrow> string option" where
  "splitSalt stored =
     (case dropWhile (\<lambda>c. c \<noteq> CHR ''.'') stored of
        [] \<Rightarrow> None
      | d # r \<Rightarrow> Some (takeWhile (\<lambda>c. c \<noteq> CHR ''.'') r))"

definition timingSafeEqual :: "string \<Rightarrow> string \<Rightarrow> error + bool" where
  "timingSafeEqual a b = (if length a \<noteq> length b then Inl RangeError else Inr (a = b))"

definition comparePasswords ::
  "(string \<Rightarrow> string \<Rightarrow> nat \<Rightarrow> string) \<Rightarrow> string \<Rightarrow> string \<Rightarrow> error + bool" where
  "comparePasswords scrypt supplied stored =
     (case splitSalt stored of
        None \<Rightarrow> Inl TypeError
      | Some salt \<Rightarrow> timingSafeEqual (hexDecode (splitHashed stored)) (scrypt supplied salt 64))"

subsection \<open>Creating rows\<close>

record insert_user =
  iu_username :: string
  iu_password :: string
  iu_name :: string
  iu_role :: string
  iu_region :: "string option"
  iu_avatar :: "string option"
  iu_specialtyId :: "int option"

text \<open>
  Modelled from the spec: \<^verbatim>\<open>storage.createUser\<close>. Section 3 gives the fields of a user;
  the test of the storage class (\<^verbatim>\<open>MemStorage - createUser\<close>) gives the behaviour: the
  row gets an id and a creation date, keeps the given fields, and has null where an
  optional field is not given; it is then found under its id.
\<close>

definition createUser :: "timestamp \<Rightarrow> store \<Rightarrow> insert_user \<Rightarrow> user \<times> store" where
  "createUser now s d =
     (let u = \<lparr>u_id = userSeq s, u_username = iu_username d, u_password = iu_password d,
               u_name = iu_name d, u_role = iu_role d, u_region = iu_region d,
               u_avatar = iu_avatar d, u_specialtyId = iu_specialtyId d,
               u_createdAt = Some now\<rparr>
      in (u, s\<lparr>users := users s @ [u], userSeq := userSeq s + 1\<rparr>))"

record insert_stock_item =
  isi_name :: string
  isi_categoryId :: int
  isi_specialtyId :: "int option"
  isi_quantity :: int
  isi_price :: "int option"
  isi_expiry :: "timestamp option"
  isi_uniqueNumber :: "string option"
  isi_imageUrl :: "string option"
  isi_notes :: "string option"
  isi_createdBy :: int

text \<open>
  The checks of \<^verbatim>\<open>extendedInsertStockItemSchema\<close> on a typed item: a name of at least
  two characters, a positive category, a quantity and a price that are not negative, the
  price 0 when none is given. \<open>None\<close> is a \<^verbatim>\<open>ZodError\<close>.
\<close>

definition extendedInsertStockItemSchema :: "insert_stock_item \<Rightarrow> insert_stock_item option" where
  "extendedInsertStockItemSchema d =
     (if 2 \<le> length (isi_name d) \<and> 0 < isi_categoryId d \<and> 0 \<le> isi_quantity d
         \<and> (case isi_price d of None \<Rightarrow> True | Some p \<Rightarrow> 0 \<le> p)
      then Some (d\<lparr>isi_price := Some (case isi_price d of None \<Rightarrow> 0 | Some p \<Rightarrow> p)\<rparr>)
      else None)"

text \<open>
  Modelled from the spec: \<^verbatim>\<open>storage.createStockItem\<close>, from section 3 and the test of
  the storage class (\<^verbatim>\<open>MemStorage - createStockItem\<close>), as \<open>createUser\<close> is.
\<close>

definition createStockItem :: "timestamp \<Rightarrow> store \<Rightarrow> insert_stock_item \<Rightarrow> stock_item \<times> store" where
  "createStockItem now s d =
     (let i = \<lparr>si_id = stockItemSeq s, si_name = isi_name d, si_categoryId = isi_categoryId d,
               si_specialtyId = isi_specialtyId d, si_quantity = isi_quantity d,
               si_price = isi_price d, si_expiry = isi_expiry d,
               si_uniqueNumber = isi_uniqueNumber d, si_imageUrl = isi_imageUrl d,
               si_notes = isi_notes d, si_createdAt = Some now,
               si_createdBy = isi_createdBy d\<rparr>
      in (i, s\<lparr>stockItems := stockItems s @ [i], stockItemSeq := stockItemSeq s + 1\<rparr>))"

subsection \<open>Authentication routes (server/auth.ts)\<close>

text \<open>
  The rate limiter lets ten requests of one address through in a window; \<open>hits\<close> counts
  the requests of the window, this one included.
\<close>

definition authLimiter :: "nat \<Rightarrow> gate" where
  "authLimiter hits =
     (if 10 < hits
      then Reject 429
        (Text ''Too many login attempts from this IP, please try again after 15 minutes'')
      else Pass)"

text \<open>
  The body of a registration. The handler reads five properties; the text properties are
  taken to be strings, the role is any value.
\<close>

record register_body =
  rb_username :: string
  rb_password :: string
  rb_name :: string
  rb_role :: jsval
  rb_region :: "string option"

definition registerInsert :: "string \<Rightarrow> register_body \<Rightarrow> insert_user" where
  "registerInsert hashedPassword b =
     \<lparr>iu_username = rb_username b, iu_password = hashedPassword, iu_name = rb_name b,
      iu_role = ''medicalRep'', iu_region = rb_region b, iu_avatar = Some [],
      iu_specialtyId = None\<rparr>"

definition register ::
  "(string \<Rightarrow> string \<Rightarrow> nat \<Rightarrow> string) \<Rightarrow> string \<Rightarrow> timestamp \<Rightarrow> store \<Rightarrow> nat \<Rightarrow> register_body
    \<Rightarrow> outcome \<times> store" where
  "register scrypt saltBytes now s hits b =
     (case runGates [authLimiter hits] of
        Reject st bd \<Rightarrow> (Respond st bd, s)
      | Pass \<Rightarrow>
          (case getUserByUsername s (rb_username b) of
             Some _ \<Rightarrow> (Respond 400 (Message ''Username already exists''), s)
           | None \<Rightarrow>
               (let hashedPassword = hashPassword scrypt saltBytes (rb_password b);
                    (u, s') = createUser now s (registerInsert hashedPassword b)
                in (Respond 201 (UserJson (withoutPassword u)), s'))))"

text \<open>
  Login with the local strategy: missing credentials and a wrong user name or password
  are answered 401 with the strategy's message; an exception of the comparison is passed
  on.
\<close>

definition login ::
  "(string \<Rightarrow> string \<Rightarrow> nat \<Rightarrow> string) \<Rightarrow> store \<Rightarrow> string \<Rightarrow> string \<Rightarrow> outcome" where
  "login scrypt s username password =
     (if username = [] \<or> password = [] then Respond 401 (Message ''Missing credentials'')
      else case getUserByUsername s username of
        None \<Rightarrow> Respond 401 (Message ''Incorrect username or password'')
      | Some u \<Rightarrow>
          (case comparePasswords scrypt password (u_password u) of
             Inl e \<Rightarrow> Next e
           | Inr ok \<Rightarrow>
               if ok then Respond 200 (UserJson (withoutPassword u))
               else Respond 401 (Message ''Incorrect username or password'')))"

definition currentUser :: "user option \<Rightarrow> outcome" where
  "currentUser reqUser =
     (case reqUser of
        None \<Rightarrow> Respond 401 (Message ''Not authenticated'')
      | Some u \<Rightarrow> Respond 200 (UserJson (withoutPassword u)))"

subsection \<open>User routes (server/routes.ts)\<close>

text \<open>The roles of \<^verbatim>\<open>extendedInsertUserSchema\<close>, which \<^verbatim>\<open>roleQuerySchema\<close> accepts.\<close>

definition rolesEnum :: "string list" where
  "rolesEnum = [''ceo'', ''marketer'', ''salesManager'', ''stockManager'', ''admin'', ''medicalRep'']"

definition roleQuerySchema :: "qsval option \<Rightarrow> string option option" where
  "roleQuerySchema v =
     (case v of
        None \<Rightarrow> Some None
      | Some (QStr r) \<Rightarrow> if r \<in> set rolesEnum then Some (Some r) else None
      | Some _ \<Rightarrow> None)"

text \<open>Modelled from the spec: \<^verbatim>\<open>storage.getUsers()\<close> and \<^verbatim>\<open>storage.getUsersByRole(role)\<close>.\<close>

definition getUsers :: "store \<Rightarrow> user list" where
  "getUsers s = users s"

definition getUsersByRole :: "store \<Rightarrow> string \<Rightarrow> user list" where
  "getUsersByRole s r = filter (\<lambda>u. u_role u = r) (users s)"

definition getUsersRoute :: "store \<Rightarrow> user option \<Rightarrow> qsval option \<Rightarrow> outcome" where
  "getUsersRoute s reqUser roleQuery =
     (case runGates [isAuthenticated reqUser] of
        Reject st bd \<Rightarrow> Respond st bd
      | Pass \<Rightarrow>
          (case roleQuerySchema roleQuery of
             None \<Rightarrow> Next ZodError
           | Some role \<Rightarrow>
               (let us = (case role of Some r \<Rightarrow> getUsersByRole s r | None \<Rightarrow> getUsers s)
                in Respond 200 (UsersJson (map withoutPassword us)))))"

text \<open>\<^verbatim>\<open>idParamSchema\<close>: \<^verbatim>\<open>z.coerce.number().int().positive()\<close> on the path parameter.\<close>

definition idParamSchema :: "(qsval \<Rightarrow> jsnum) \<Rightarrow> string \<Rightarrow> int option" where
  "idParamSchema toNumber idParam = zCoerceIntMin 1 (toNumber (QStr idParam))"

definition getUserRoute ::
  "(qsval \<Rightarrow> jsnum) \<Rightarrow> store \<Rightarrow> user option \<Rightarrow> string \<Rightarrow> outcome" where
  "getUserRoute toNumber s reqUser idParam =
     (case runGates [isAuthenticated reqUser] of
        Reject st bd \<Rightarrow> Respond st bd
      | Pass \<Rightarrow>
          (case idParamSchema toNumber idParam of
             None \<Rightarrow> Next ZodError
           | Some i \<Rightarrow>
               (case getUser s i of
                  None \<Rightarrow> Respond 404 (Message ''User not found'')
                | Some u \<Rightarrow> Respond 200 (UserJson (withoutPassword u)))))"

text \<open>
  The update of a user. The body is any object; a password in it is replaced by its hash
  before \<^verbatim>\<open>storage.updateUser\<close>, the argument \<open>updateUser\<close>, is called. Hashing a
  password that is not a string throws.
\<close>

definition hashBodyPassword ::
  "(string \<Rightarrow> string \<Rightarrow> nat \<Rightarrow> string) \<Rightarrow> string \<Rightarrow> jsobj \<Rightarrow> error + jsobj" where
  "hashBodyPassword scrypt saltBytes userData =
     (if truthy (jsGet userData ''password'')
      then (case jsGet userData ''password'' of
              JStr p \<Rightarrow> Inr (jsSet userData ''password'' (JStr (hashPassword scrypt saltBytes p)))
            | _ \<Rightarrow> Inl TypeError)
      else Inr userData)"

definition putUserRoute ::
  "(string \<Rightarrow> string \<Rightarrow> nat \<Rightarrow> string) \<Rightarrow> string \<Rightarrow> ('st \<Rightarrow> int \<Rightarrow> string \<Rightarrow> bool)
    \<Rightarrow> ('st \<Rightarrow> jsnum \<Rightarrow> jsobj \<Rightarrow> user option \<times> 'st) \<Rightarrow> 'st \<Rightarrow> user option \<Rightarrow> string \<Rightarrow> jsobj
    \<Rightarrow> outcome \<times> 'st" where
  "putUserRoute scrypt saltBytes perm updateUser s reqUser idParam userData =
     (case runGates [isAuthenticated reqUser, hasPermission (perm s) ''canManageUsers'' reqUser] of
        Reject st bd \<Rightarrow> (Respond st bd, s)
      | Pass \<Rightarrow>
          (case hashBodyPassword scrypt saltBytes userData of
             Inl e \<Rightarrow> (Next e, s)
           | Inr userData' \<Rightarrow>
               (case updateUser s (parseInt (JStr idParam)) userData' of
                  (None, s') \<Rightarrow> (Respond 404 (Message ''User not found''), s')
                | (Some u, s') \<Rightarrow> (Respond 200 (UserJson (withoutPassword u)), s'))))"

section \<open>Reachable stores\<close>

text \<open>
  Stores the application can be in: it starts empty, and users are created, stock items
  are created from data that passed \<^verbatim>\<open>extendedInsertStockItemSchema\<close> (as
  \<^verbatim>\<open>POST /api/stock-items\<close> does), stock is moved, stock items are edited with data that
  no schema has checked (as \<^verbatim>\<open>PUT /api/stock-items/:id\<close> does), and stock items are
  deleted. Allocations are written by the movement transaction only.
\<close>

inductive reachable :: "store \<Rightarrow> bool" where
  initial: "reachable emptyStore"
| user_created: "reachable s \<Longrightarrow> reachable (snd (createUser now s d))"
| item_created:
    "reachable s \<Longrightarrow> extendedInsertStockItemSchema d = Some d' \<Longrightarrow>
     reachable (snd (createStockItem now s d'))"
| stock_moved: "reachable s \<Longrightarrow> reachable (snd (moveStock now s a))"
| item_updated: "reachable s \<Longrightarrow> reachable (snd (updateStockItem dateOf s n b))"
| item_deleted: "reachable s \<Longrightarrow> reachable (snd (deleteStockItem s n))"

text \<open>The invariant of the ledger, for one stock item and for the store.\<close>

definition itemInvariant :: "store \<Rightarrow> stock_item \<Rightarrow> bool" where
  "itemInvariant s i = (0 \<le> si_quantity i \<and> sumAllocations s (si_id i) \<le> si_quantity i)"

definition ledgerInvariant :: "store \<Rightarrow> bool" where
  "ledgerInvariant s = list_all (itemInvariant s) (stockItems s)"

text \<open>
  The invariant that the creation of users and of items, the movement transaction and the
  deletion of items preserve: the ledger invariant, together with the facts about row ids
  it rests on (item ids are distinct and below the next id of the sequence, and every
  allocation is of an id below it).
\<close>

definition storeInvariant :: "store \<Rightarrow> bool" where
  "storeInvariant s =
     (distinct (map si_id (stockItems s))
      \<and> list_all (\<lambda>i. si_id i < stockItemSeq s) (stockItems s)
      \<and> list_all (\<lambda>a. al_stockItemId a < stockItemSeq s) (stockAllocations s)
      \<and> ledgerInvariant s)"

section \<open>A worked scenario\<close>
text \<open>
  The scenario of the specification: item X has quantity 100 and no allocation; 30 are
  moved from central inventory to user 1, then 10 from user 1 to user 2. User 3 is a
  marketer and acts in every movement.
\<close>

definition demoUser :: "int \<Rightarrow> string \<Rightarrow> string \<Rightarrow> user" where
  "demoUser i n r =
     \<lparr>u_id = i, u_username = n, u_password = ''00.aa'', u_name = n, u_role = r,
      u_region = None, u_avatar = None, u_specialtyId = None, u_createdAt = Some 0\<rparr>"

definition demoUsers :: "user list" where
  "demoUsers = [demoUser 1 ''rep1'' ''medicalRep'', demoUser 2 ''rep2'' ''medicalRep'',
                demoUser 3 ''mark'' ''marketer'']"

definition demoItem :: stock_item where
  "demoItem =
     \<lparr>si_id = 1, si_name = ''Item X'', si_categoryId = 1, si_specialtyId = None,
      si_quantity = 100, si_price = Some 0, si_expiry = Some 5000, si_uniqueNumber = None,
      si_imageUrl = Some ''/uploads/x.png'', si_notes = None, si_createdAt = Some 0,
      si_createdBy = 3\<rparr>"

definition demoStore0 :: store where
  "demoStore0 =
     \<lparr>users = demoUsers, stockItems = [demoItem], stockAllocations = [], stockMovements = [],
      userSeq = 4, stockItemSeq = 2, allocationSeq = 1, movementSeq = 1\<rparr>"

definition demoMove1 :: move_args where
  "demoMove1 =
     \<lparr>ma_stockItemId = 1, ma_quantity = 30, ma_fromUserId = None, ma_toUserId = 1,
      ma_movedBy = 3, ma_notes = None\<rparr>"

definition demoMove2 :: move_args where
  "demoMove2 =
     \<lparr>ma_stockItemId = 1, ma_quantity = 10, ma_fromUserId = Some 1, ma_toUserId = 2,
      ma_movedBy = 3, ma_notes = None\<rparr>"

definition demoMove3 :: move_args where
  "demoMove3 =
     \<lparr>ma_stockItemId = 1, ma_quantity = 25, ma_fromUserId = Some 1, ma_toUserId = 2,
      ma_movedBy = 3, ma_notes = None\<rparr>"

definition demoAllocation :: "int \<Rightarrow> int \<Rightarrow> int \<Rightarrow> timestamp \<Rightarrow> stock_allocation" where
  "demoAllocation i u q t =
     \<lparr>al_id = i, al_userId = u, al_stockItemId = 1, al_quantity = q,
      al_allocatedAt = Some t, al_allocatedBy = 3\<rparr>"

definition demoMovement1 :: stock_movement where
  "demoMovement1 =
     \<lparr>mv_id = 1, mv_stockItemId = 1, mv_fromUserId = None, mv_toUserId = 1,
      mv_quantity = 30, mv_notes = None, mv_movedAt = Some 10, mv_movedBy = 3\<rparr>"

definition demoMovement2 :: stock_movement where
  "demoMovement2 =
     \<lparr>mv_id = 2, mv_stockItemId = 1, mv_fromUserId = Some 1, mv_toUserId = 2,
      mv_quantity = 10, mv_notes = None, mv_movedAt = Some 20, mv_movedBy = 3\<rparr>"

definition demoStore1 :: store where
  "demoStore1 =
     \<lparr>users = demoUsers, stockItems = [demoItem],
      stockAllocations = [demoAllocation 1 1 30 10], stockMovements = [demoMovement1],
      userSeq = 4, stockItemSeq = 2, allocationSeq = 2, movementSeq = 2\<rparr>"

definition demoStore2 :: store where
  "demoStore2 =
     \<lparr>users = demoUsers, stockItems = [demoItem],
      stockAllocations = [demoAllocation 1 1 20 10, demoAllocation 2 2 10 20],
      stockMovements = [demoMovement1, demoMovement2],
      userSeq = 4, stockItemSeq = 2, allocationSeq = 3, movementSeq = 3\<rparr>"

definition demoNewUser :: "string \<Rightarrow> string \<Rightarrow> insert_user" where
  "demoNewUser n r =
     \<lparr>iu_username = n, iu_password = ''00.aa'', iu_name = n, iu_role = r, iu_region = None,
      iu_avatar = None, iu_specialtyId = None\<rparr>"

definition demoNewItem :: insert_stock_item where
  "demoNewItem =
     \<lparr>isi_name = ''Item X'', isi_categoryId = 1, isi_specialtyId = None, isi_quantity = 100,
      isi_price = None, isi_expiry = Some 5000, isi_uniqueNumber = None,
      isi_imageUrl = Some ''/uploads/x.png'', isi_notes = None, isi_createdBy = 3\<rparr>"

text \<open>
  Acting users, and request bodies for a movement of item 1 from central inventory to
  user 1.
\<close>

definition demoCeo :: user where
  "demoCeo = demoUser 9 ''boss'' ''ceo''"

definition demoBody :: "jsval \<Rightarrow> movement_body" where
  "demoBody q =
     \<lparr>mb_stockItemId = JNum (Dec 1 0), mb_fromUserId = JNull, mb_toUserId = JNum (Dec 1 0),
      mb_quantity = q, mb_notes = JUndefined\<rparr>"

definition demoMarketer :: user where
  "demoMarketer = demoUser 3 ''mark'' ''marketer''"

definition demoRep :: user where
  "demoRep = demoUser 1 ''rep1'' ''medicalRep''"

text \<open>
  For the examples: \<^verbatim>\<open>Number\<close> on a string of decimal digits (other values are not
  modelled and give \<open>NaN\<close> here), a join of two path segments, the upload directory
  with three files, of which the server may not remove the third, a server with the item
  of the scenario, a second item whose \<^verbatim>\<open>imageUrl\<close> is the URL of the upload directory, a
  third item whose image is the third file, a server with the three items, a stand-in for
  \<^verbatim>\<open>scrypt\<close>, sixteen salt bytes, and a registration that asks for the role \<^verbatim>\<open>ceo\<close>.
\<close>

definition digitsToNumber :: "qsval \<Rightarrow> jsnum" where
  "digitsToNumber v =
     (case v of
        QStr s \<Rightarrow>
          if s \<noteq> [] \<and> list_all (\<lambda>c. digitValue c < 10) s then Dec (int (digitsValue 10 s)) 0
          else NaN
      | _ \<Rightarrow> NaN)"

definition demoJoin :: "string \<Rightarrow> string \<Rightarrow> string" where
  "demoJoin a b = a @ ''/'' @ b"

definition demoFiles :: file_system where
  "demoFiles =
     [''/app/uploads/'' \<mapsto> Directory, ''/app/uploads/x.png'' \<mapsto> RegularFile,
      ''/app/uploads/y.png'' \<mapsto> RegularFile, ''/app/uploads/z.png'' \<mapsto> LockedFile]"

definition demoServer :: server where
  "demoServer = \<lparr>sv_store = demoStore0, sv_files = demoFiles\<rparr>"

definition demoFolderItem :: stock_item where
  "demoFolderItem =
     demoItem\<lparr>si_id := 2, si_name := ''Item Y'', si_imageUrl := Some ''/uploads/''\<rparr>"

definition demoLockedItem :: stock_item where
  "demoLockedItem =
     demoItem\<lparr>si_id := 3, si_name := ''Item Z'', si_imageUrl := Some ''/uploads/z.png''\<rparr>"

definition demoServer2 :: server where
  "demoServer2 =
     \<lparr>sv_store = demoStore0\<lparr>stockItems := [demoItem, demoFolderItem, demoLockedItem],
                             stockItemSeq := 4\<rparr>,
      sv_files = demoFiles\<rparr>"

definition demoScrypt :: "string \<Rightarrow> string \<Rightarrow> nat \<Rightarrow> string" where
  "demoScrypt password salt keylen = replicate keylen (char_of (length password + length salt))"

definition demoSalt :: string where
  "demoSalt = ''0123456789abcdef''"

definition demoRegistration :: register_body where
  "demoRegistration =
     \<lparr>rb_username = ''newrep'', rb_password = ''secret'', rb_name = ''New Rep'',
      rb_role = JStr ''ceo'', rb_region = Some ''North''\<rparr>"

text \<open>The body of a request that edits the quantity of an item and nothing else.\<close>

definition demoEdit :: "jsval \<Rightarrow> item_body" where
  "demoEdit q =
     \<lparr>ib_name = JUndefined, ib_categoryId = JUndefined, ib_specialtyId = JUndefined,
      ib_quantity = q, ib_price = JUndefined, ib_expiry = JUndefined,
      ib_uniqueNumber = JUndefined, ib_imageUrl = JUndefined, ib_notes = JUndefined\<rparr>"

text \<open>
  The body of the third request of the scenario: 25 units of item 1 from user 1 to user 2,
  the item id sent as a string.
\<close>

definition demoBody3 :: movement_body where
  "demoBody3 =
     \<lparr>mb_stockItemId = JStr ''1'', mb_fromUserId = JNum (Dec 1 0), mb_toUserId = JNum (Dec 2 0),
      mb_quantity = JNum (Dec 25 0), mb_notes = JNull\<rparr>"

section \<open>Properties of the movement transaction\<close>

lemmas demo_defs =
  demoUser_def demoUsers_def demoItem_def demoStore0_def demoStore1_def demoStore2_def
  demoMove1_def demoMove2_def demoMove3_def demoAllocation_def demoMovement1_def
  demoMovement2_def

lemmas storage_defs =
  getUser_def getUserByUsername_def getStockItem_def findAllocation_def userAllocation_def
  sumAllocations_def availableAtSource_def decrementSource_def incrementDestination_def
  newMovement_def appendMovement_def

lemmas js_defs =
  parseIntString_def parseIntNumber_def isWhiteSpace_def digitValue_def digitsValue_def
  coerceField_def coerceFromUserId_def coerceMovementBody_def zNumber_def zNullableNumber_def
  zNullableString_def insertStockMovementSchema_def

lemma demo_move1: "moveStock 10 demoStore0 demoMove1 = (Inr demoMovement1, demoStore1)"
  by (simp add: moveStock_def storage_defs demo_defs Let_def)

lemma demo_move2: "moveStock 20 demoStore1 demoMove2 = (Inr demoMovement2, demoStore2)"
  by (simp add: moveStock_def storage_defs demo_defs Let_def)

subsection \<open>Rows and sums\<close>

lemma updateFirst_none: "find P xs = None \<Longrightarrow> updateFirst P f xs = xs"
  by (induction xs) (auto split: if_splits)

lemma filter_updateFirst_other:
  assumes "\<And>x. P x \<Longrightarrow> \<not> Q x" and "\<And>x. P x \<Longrightarrow> \<not> Q (f x)"
  shows "filter Q (updateFirst P f xs) = filter Q xs"
  using assms by (induction xs) auto

lemma sum_updateFirst_same:
  assumes "find P xs = Some a" and "\<And>x. P x \<Longrightarrow> Q x" and "\<And>x. P x \<Longrightarrow> Q (f x)"
    and "\<And>x. P x \<Longrightarrow> g (f x) = g x + (d::int)"
  shows "sum_list (map g (filter Q (updateFirst P f xs))) = sum_list (map g (filter Q xs)) + d"
  using assms by (induction xs) (auto split: if_splits)

lemma find_updateFirst_same:
  "find P xs = Some a \<Longrightarrow> P (f a) \<Longrightarrow> find P (updateFirst P f xs) = Some (f a)"
  by (induction xs) (auto split: if_splits)

lemma find_updateFirst_other:
  assumes "\<And>x. P x \<Longrightarrow> \<not> R x" and "\<And>x. P x \<Longrightarrow> \<not> R (f x)"
  shows "find R (updateFirst P f xs) = find R xs"
  using assms by (induction xs) auto

lemma find_Some_P: "find P xs = Some a \<Longrightarrow> P a"
  by (induction xs) (auto split: if_splits)

lemma sumAllocations_decrementSource:
  assumes "findAllocation s u sid = Some a"
  shows "sumAllocations (decrementSource s sid (Some u) q) sid' =
         sumAllocations s sid' - (if sid' = sid then q else 0)"
proof (cases "sid' = sid")
  case True
  have "sum_list (map al_quantity (filter (\<lambda>a. al_stockItemId a = sid)
          (updateFirst (\<lambda>a. al_userId a = u \<and> al_stockItemId a = sid)
             (\<lambda>a. a\<lparr>al_quantity := al_quantity a - q\<rparr>) (stockAllocations s)))) =
        sum_list (map al_quantity (filter (\<lambda>a. al_stockItemId a = sid) (stockAllocations s))) + (- q)"
    using assms by (intro sum_updateFirst_same [where a = a]) (auto simp: findAllocation_def)
  with True show ?thesis by (simp add: sumAllocations_def decrementSource_def)
next
  case False
  then have "filter (\<lambda>a. al_stockItemId a = sid')
          (updateFirst (\<lambda>a. al_userId a = u \<and> al_stockItemId a = sid)
             (\<lambda>a. a\<lparr>al_quantity := al_quantity a - q\<rparr>) (stockAllocations s)) =
        filter (\<lambda>a. al_stockItemId a = sid') (stockAllocations s)"
    by (intro filter_updateFirst_other) auto
  with False show ?thesis by (simp add: sumAllocations_def decrementSource_def)
qed

lemma sumAllocations_incrementDestination:
  "sumAllocations (incrementDestination now s sid dst q actor) sid' =
   sumAllocations s sid' + (if sid' = sid then q else 0)"
proof (cases "findAllocation s dst sid")
  case None
  then show ?thesis by (simp add: sumAllocations_def incrementDestination_def)
next
  case (Some a)
  show ?thesis
  proof (cases "sid' = sid")
    case True
    have "sum_list (map al_quantity (filter (\<lambda>a. al_stockItemId a = sid)
            (updateFirst (\<lambda>a. al_userId a = dst \<and> al_stockItemId a = sid)
               (\<lambda>a. a\<lparr>al_quantity := al_quantity a + q\<rparr>) (stockAllocations s)))) =
          sum_list (map al_quantity (filter (\<lambda>a. al_stockItemId a = sid) (stockAllocations s))) + q"
      using Some by (intro sum_updateFirst_same [where a = a]) (auto simp: findAllocation_def)
    with True Some show ?thesis by (simp add: sumAllocations_def incrementDestination_def)
  next
    case False
    then have "filter (\<lambda>a. al_stockItemId a = sid')
            (updateFirst (\<lambda>a. al_userId a = dst \<and> al_stockItemId a = sid)
               (\<lambda>a. a\<lparr>al_quantity := al_quantity a + q\<rparr>) (stockAllocations s)) =
          filter (\<lambda>a. al_stockItemId a = sid') (stockAllocations s)"
      by (intro filter_updateFirst_other) auto
    with False Some show ?thesis by (simp add: sumAllocations_def incrementDestination_def)
  qed
qed

lemma userAllocation_decrementSource:
  assumes "findAllocation s v sid = Some a"
  shows "userAllocation (decrementSource s sid (Some v) q) u sid' =
         userAllocation s u sid' - (if u = v \<and> sid' = sid then q else 0)"
proof (cases "u = v \<and> sid' = sid")
  case True
  have "find (\<lambda>a. al_userId a = v \<and> al_stockItemId a = sid)
          (updateFirst (\<lambda>a. al_userId a = v \<and> al_stockItemId a = sid)
             (\<lambda>a. a\<lparr>al_quantity := al_quantity a - q\<rparr>) (stockAllocations s)) =
        Some (a\<lparr>al_quantity := al_quantity a - q\<rparr>)"
    using assms find_Some_P [of _ "stockAllocations s" a]
    by (intro find_updateFirst_same) (auto simp: findAllocation_def)
  with True assms show ?thesis
    by (simp add: userAllocation_def findAllocation_def decrementSource_def)
next
  case False
  then have "find (\<lambda>a. al_userId a = u \<and> al_stockItemId a = sid')
          (updateFirst (\<lambda>a. al_userId a = v \<and> al_stockItemId a = sid)
             (\<lambda>a. a\<lparr>al_quantity := al_quantity a - q\<rparr>) (stockAllocations s)) =
        find (\<lambda>a. al_userId a = u \<and> al_stockItemId a = sid') (stockAllocations s)"
    by (intro find_updateFirst_other) auto
  with False show ?thesis
    by (auto simp: userAllocation_def findAllocation_def decrementSource_def)
qed

lemma find_append_new:
  "find P (xs @ [x]) = (case find P xs of Some a \<Rightarrow> Some a | None \<Rightarrow> if P x then Some x else None)"
  by (induction xs) auto

lemma userAllocation_incrementDestination:
  "userAllocation (incrementDestination now s sid dst q actor) u sid' =
   userAllocation s u sid' + (if u = dst \<and> sid' = sid then q else 0)"
proof (cases "findAllocation s dst sid")
  case None
  show ?thesis
  proof (cases "u = dst \<and> sid' = sid")
    case True
    with None show ?thesis
      by (simp add: userAllocation_def findAllocation_def incrementDestination_def find_append_new)
  next
    case False
    with None show ?thesis
      by (auto simp: userAllocation_def findAllocation_def incrementDestination_def
            find_append_new split: option.splits)
  qed
next
  case (Some a)
  show ?thesis
  proof (cases "u = dst \<and> sid' = sid")
    case True
    have "find (\<lambda>a. al_userId a = dst \<and> al_stockItemId a = sid)
            (updateFirst (\<lambda>a. al_userId a = dst \<and> al_stockItemId a = sid)
               (\<lambda>a. a\<lparr>al_quantity := al_quantity a + q\<rparr>) (stockAllocations s)) =
          Some (a\<lparr>al_quantity := al_quantity a + q\<rparr>)"
      using Some find_Some_P [of _ "stockAllocations s" a]
      by (intro find_updateFirst_same) (auto simp: findAllocation_def)
    with True Some show ?thesis
      by (simp add: userAllocation_def findAllocation_def incrementDestination_def)
  next
    case False
    then have "find (\<lambda>a. al_userId a = u \<and> al_stockItemId a = sid')
            (updateFirst (\<lambda>a. al_userId a = dst \<and> al_stockItemId a = sid)
               (\<lambda>a. a\<lparr>al_quantity := al_quantity a + q\<rparr>) (stockAllocations s)) =
          find (\<lambda>a. al_userId a = u \<and> al_stockItemId a = sid') (stockAllocations s)"
      by (intro find_updateFirst_other) auto
    with False Some show ?thesis
      by (auto simp: userAllocation_def findAllocation_def incrementDestination_def)
  qed
qed

subsection \<open>The effect of a movement\<close>

lemma getStockItem_id: "getStockItem s k = Some item \<Longrightarrow> si_id item = k"
  using find_Some_P [of "\<lambda>i. si_id i = k" "stockItems s" item] by (simp add: getStockItem_def)

lemma find_Some_set: "find P xs = Some a \<Longrightarrow> a \<in> set xs"
  by (induction xs) (auto split: if_splits)

lemma getStockItem_set: "getStockItem s k = Some item \<Longrightarrow> item \<in> set (stockItems s)"
  by (simp add: getStockItem_def find_Some_set)

lemma distinct_ids_unique:
  "distinct (map f xs) \<Longrightarrow> x \<in> set xs \<Longrightarrow> y \<in> set xs \<Longrightarrow> f x = f y \<Longrightarrow> x = y"
  by (meson distinct_map inj_onD)

lemma list_all_updateFirst:
  "list_all Q xs \<Longrightarrow> (\<And>x. Q x \<Longrightarrow> Q (f x)) \<Longrightarrow> list_all Q (updateFirst P f xs)"
  by (induction xs) auto

lemma moveStock_success:
  assumes "moveStock now s a = (Inr m, s')"
  shows "\<exists>item. getStockItem s (ma_stockItemId a) = Some item
           \<and> 0 < ma_quantity a
           \<and> getUser s (ma_toUserId a) \<noteq> None
           \<and> ma_quantity a \<le> availableAtSource s item (ma_fromUserId a)
           \<and> m = newMovement now (moved now s a) a
           \<and> s' = appendMovement (moved now s a) m"
  using assms
  by (auto simp: moveStock_def Let_def moved_def getStockItem_id split: if_splits option.splits)

lemma source_row_exists:
  "0 < q \<Longrightarrow> q \<le> userAllocation s u sid \<Longrightarrow> \<exists>a. findAllocation s u sid = Some a"
  by (cases "findAllocation s u sid") (auto simp: userAllocation_def)

lemma stockItems_moved [simp]: "stockItems (moved now s a) = stockItems s"
  by (simp add: moved_def incrementDestination_def decrementSource_def
      split: option.splits)

lemma stockItemSeq_moved [simp]: "stockItemSeq (moved now s a) = stockItemSeq s"
  by (simp add: moved_def incrementDestination_def decrementSource_def
      split: option.splits)

lemma sumAllocations_appendMovement [simp]:
  "sumAllocations (appendMovement s m) k = sumAllocations s k"
  by (simp add: sumAllocations_def appendMovement_def)

lemma userAllocation_appendMovement [simp]:
  "userAllocation (appendMovement s m) u k = userAllocation s u k"
  by (simp add: userAllocation_def findAllocation_def appendMovement_def)

lemma sumAllocations_moved:
  assumes "0 < ma_quantity a"
    and "ma_quantity a \<le> availableAtSource s item (ma_fromUserId a)"
    and "si_id item = ma_stockItemId a"
  shows "sumAllocations (moved now s a) k =
         sumAllocations s k
           + (if k = ma_stockItemId a \<and> ma_fromUserId a = None then ma_quantity a else 0)"
proof (cases "ma_fromUserId a")
  case None
  then show ?thesis
    by (simp add: moved_def sumAllocations_incrementDestination decrementSource_def)
next
  case (Some u)
  with assms obtain r where "findAllocation s u (ma_stockItemId a) = Some r"
    using source_row_exists [of "ma_quantity a" s u "ma_stockItemId a"]
    by (auto simp: availableAtSource_def)
  with Some show ?thesis
    by (simp add: moved_def sumAllocations_incrementDestination sumAllocations_decrementSource)
qed

lemma userAllocation_moved:
  assumes "0 < ma_quantity a"
    and "ma_quantity a \<le> availableAtSource s item (ma_fromUserId a)"
    and "si_id item = ma_stockItemId a"
  shows "userAllocation (moved now s a) u k =
         userAllocation s u k
           - (if ma_fromUserId a = Some u \<and> k = ma_stockItemId a then ma_quantity a else 0)
           + (if u = ma_toUserId a \<and> k = ma_stockItemId a then ma_quantity a else 0)"
proof (cases "ma_fromUserId a")
  case None
  then show ?thesis
    by (simp add: moved_def userAllocation_incrementDestination decrementSource_def)
next
  case (Some v)
  with assms obtain r where "findAllocation s v (ma_stockItemId a) = Some r"
    using source_row_exists [of "ma_quantity a" s v "ma_stockItemId a"]
    by (auto simp: availableAtSource_def)
  with Some show ?thesis
    by (auto simp: moved_def userAllocation_incrementDestination userAllocation_decrementSource)
qed

lemma allocations_bounded_moved:
  assumes "list_all (\<lambda>r. al_stockItemId r < n) (stockAllocations s)" and "ma_stockItemId a < n"
  shows "list_all (\<lambda>r. al_stockItemId r < n) (stockAllocations (moved now s a))"
proof -
  let ?s1 = "decrementSource s (ma_stockItemId a) (ma_fromUserId a) (ma_quantity a)"
  have 1: "list_all (\<lambda>r. al_stockItemId r < n) (stockAllocations ?s1)"
    using assms(1) by (auto simp: decrementSource_def intro!: list_all_updateFirst split: option.splits)
  show ?thesis
    unfolding moved_def using 1 assms(2)
    by (auto simp: incrementDestination_def intro!: list_all_updateFirst split: option.splits)
qed

lemma storeInvariant_moveStock:
  assumes "storeInvariant s"
  shows "storeInvariant (snd (moveStock now s a))"
proof (cases "fst (moveStock now s a)")
  case (Inl e)
  then have "snd (moveStock now s a) = s"
    by (auto simp: moveStock_def Let_def split: if_splits option.splits)
  with assms show ?thesis by simp
next
  case (Inr m)
  then have eq: "moveStock now s a = (Inr m, snd (moveStock now s a))"
    by (simp add: prod_eq_iff)
  from moveStock_success [OF eq] obtain item where
    item: "getStockItem s (ma_stockItemId a) = Some item"
    and pos: "0 < ma_quantity a"
    and avail: "ma_quantity a \<le> availableAtSource s item (ma_fromUserId a)"
    and s': "snd (moveStock now s a) = appendMovement (moved now s a) m"
    by auto
  have id: "si_id item = ma_stockItemId a" using item by (rule getStockItem_id)
  have mem: "item \<in> set (stockItems s)" using item by (rule getStockItem_set)
  from assms have dist: "distinct (map si_id (stockItems s))"
    and items: "list_all (\<lambda>i. si_id i < stockItemSeq s) (stockItems s)"
    and allocs: "list_all (\<lambda>r. al_stockItemId r < stockItemSeq s) (stockAllocations s)"
    and ledger: "ledgerInvariant s"
    by (simp_all add: storeInvariant_def)
  have lt: "ma_stockItemId a < stockItemSeq s"
    using items mem id by (auto simp: list_all_iff)
  have "itemInvariant (appendMovement (moved now s a) m) i" if "i \<in> set (stockItems s)" for i
  proof -
    from ledger that have inv: "itemInvariant s i" by (simp add: ledgerInvariant_def list_all_iff)
    show ?thesis
    proof (cases "si_id i = ma_stockItemId a \<and> ma_fromUserId a = None")
      case True
      then have "i = item" using dist that mem id by (auto dest: distinct_ids_unique)
      with True avail inv show ?thesis
        by (simp add: itemInvariant_def sumAllocations_moved [OF pos avail id]
            availableAtSource_def)
    next
      case False
      with inv show ?thesis
        by (auto simp: itemInvariant_def sumAllocations_moved [OF pos avail id])
    qed
  qed
  then have "ledgerInvariant (appendMovement (moved now s a) m)"
    by (simp add: ledgerInvariant_def list_all_iff appendMovement_def)
  moreover have "list_all (\<lambda>r. al_stockItemId r < stockItemSeq s)
      (stockAllocations (moved now s a))"
    using allocs lt by (rule allocations_bounded_moved)
  ultimately show ?thesis
    using dist items by (simp add: s' storeInvariant_def appendMovement_def)
qed

lemma storeInvariant_createUser:
  "storeInvariant s \<Longrightarrow> storeInvariant (snd (createUser now s d))"
  by (simp add: storeInvariant_def createUser_def Let_def ledgerInvariant_def
      itemInvariant_def sumAllocations_def list_all_iff)

lemma sum_none_above:
  "list_all (\<lambda>r. al_stockItemId r < n) xs \<Longrightarrow> filter (\<lambda>r. al_stockItemId r = n) xs = []"
  by (induction xs) auto

lemma storeInvariant_createStockItem:
  assumes "storeInvariant s" and "extendedInsertStockItemSchema d = Some d'"
  shows "storeInvariant (snd (createStockItem now s d'))"
proof -
  from assms(2) have q: "0 \<le> isi_quantity d'"
    by (auto simp: extendedInsertStockItemSchema_def split: if_splits)
  from assms(1) have dist: "distinct (map si_id (stockItems s))"
    and items: "list_all (\<lambda>i. si_id i < stockItemSeq s) (stockItems s)"
    and allocs: "list_all (\<lambda>r. al_stockItemId r < stockItemSeq s) (stockAllocations s)"
    and ledger: "ledgerInvariant s"
    by (simp_all add: storeInvariant_def)
  have fresh: "stockItemSeq s \<notin> si_id ` set (stockItems s)"
    using items by (auto simp: list_all_iff)
  have none: "filter (\<lambda>r. al_stockItemId r = stockItemSeq s) (stockAllocations s) = []"
    using allocs by (rule sum_none_above)
  show ?thesis
    using dist items allocs ledger fresh q none
    by (auto simp: storeInvariant_def createStockItem_def Let_def ledgerInvariant_def
        itemInvariant_def sumAllocations_def list_all_iff)
qed

lemma storeInvariant_deleteStockItem:
  "storeInvariant s \<Longrightarrow> storeInvariant (snd (deleteStockItem s n))"
  by (auto simp: storeInvariant_def deleteStockItem_def ledgerInvariant_def
      itemInvariant_def sumAllocations_def list_all_iff distinct_map_filter split: option.splits)

lemma storeInvariant_empty: "storeInvariant emptyStore"
  by (simp add: storeInvariant_def emptyStore_def ledgerInvariant_def)

subsection \<open>Insufficient stock\<close>

text \<open>
  C1. A movement that asks for more than the source has available fails and mutates
  nothing. For every call on an existing stock item whose quantity exceeds the quantity
  available at the source (the source user's allocation, or the derived central pool when
  \<open>fromUserId\<close> is absent), the call returns an error and the store after the call,
  every allocation row and the movement log included, is the store before it; and when the
  other arguments are valid (positive quantity, existing destination user) the error is
  \<open>InsufficientStock\<close>, naming the source. Reached through \<^verbatim>\<open>POST /api/movements\<close> by a
  user who may move stock, the error goes to the error middleware and the store is
  unchanged.
\<close>

theorem moveStock_insufficient:
  assumes "getStockItem s (ma_stockItemId a) = Some item"
    and "availableAtSource s item (ma_fromUserId a) < ma_quantity a"
  shows "snd (moveStock now s a) = s
       \<and> (\<exists>e. fst (moveStock now s a) = Inl e)
       \<and> (0 < ma_quantity a \<and> getUser s (ma_toUserId a) \<noteq> None \<longrightarrow>
            fst (moveStock now s a) = Inl (InsufficientStock (ma_fromUserId a)))
       \<and> (insertStockMovementSchema (coerceMovementBody b) (u_id u) = Some a
            \<and> (u_role u = ''ceo'' \<or> perm s (u_id u) ''canMoveStock'') \<longrightarrow>
            (\<exists>e. postMovements perm (moveStock now) s (Some u) b = (Next e, s)))"
proof -
  from assms have "\<exists>e. moveStock now s a = (Inl e, s)"
    by (auto simp: moveStock_def split: option.splits)
  then obtain e where e: "moveStock now s a = (Inl e, s)" ..
  have "0 < ma_quantity a \<and> getUser s (ma_toUserId a) \<noteq> None \<longrightarrow>
      fst (moveStock now s a) = Inl (InsufficientStock (ma_fromUserId a))"
    using assms by (auto simp: moveStock_def split: option.splits)
  moreover have "insertStockMovementSchema (coerceMovementBody b) (u_id u) = Some a
      \<and> (u_role u = ''ceo'' \<or> perm s (u_id u) ''canMoveStock'') \<longrightarrow>
      (\<exists>e. postMovements perm (moveStock now) s (Some u) b = (Next e, s))"
    using e
    by (auto simp: postMovements_def postMovementsHandler_def isAuthenticated_def
        hasPermission_def)
  ultimately show ?thesis using e by simp
qed

text \<open>
  The end of the scenario: user 1 holds 20, and a request to move 25 from user 1 to user 2
  fails with the balances unchanged.
\<close>

theorem moveStock_insufficient_witness:
  "getStockItem demoStore2 (ma_stockItemId demoMove3) = Some demoItem
   \<and> availableAtSource demoStore2 demoItem (ma_fromUserId demoMove3) = 20
   \<and> ma_quantity demoMove3 = 25
   \<and> getUser demoStore2 (ma_toUserId demoMove3) \<noteq> None
   \<and> moveStock 30 demoStore2 demoMove3 = (Inl (InsufficientStock (Some 1)), demoStore2)
   \<and> insertStockMovementSchema (coerceMovementBody demoBody3) (u_id demoMarketer)
       = Some demoMove3
   \<and> storageHasPermission demoStore2 (u_id demoMarketer) ''canMoveStock''
   \<and> (\<exists>e. postMovements storageHasPermission (moveStock 30) demoStore2 (Some demoMarketer)
            demoBody3 = (Next e, demoStore2))"
proof -
  have item: "getStockItem demoStore2 (ma_stockItemId demoMove3) = Some demoItem"
    by (simp add: storage_defs demo_defs)
  have avail: "availableAtSource demoStore2 demoItem (ma_fromUserId demoMove3) = 20"
    by (simp add: storage_defs demo_defs)
  have q: "ma_quantity demoMove3 = 25" and src: "ma_fromUserId demoMove3 = Some 1"
    by (simp_all add: demo_defs)
  have dst: "getUser demoStore2 (ma_toUserId demoMove3) \<noteq> None"
    by (simp add: storage_defs demo_defs)
  have less: "availableAtSource demoStore2 demoItem (ma_fromUserId demoMove3)
                < ma_quantity demoMove3"
    using avail q by simp
  have schema: "insertStockMovementSchema (coerceMovementBody demoBody3) (u_id demoMarketer)
      = Some demoMove3"
    by (simp add: js_defs demoBody3_def demoMarketer_def demo_defs Let_def)
  have perm: "storageHasPermission demoStore2 (u_id demoMarketer) ''canMoveStock''"
    by (simp add: demoMarketer_def storageHasPermission_def lookupPermission_def
        ROLE_PERMISSIONS_def getUser_def demo_defs)
  note t = moveStock_insufficient [OF item less, where now = 30 and b = demoBody3
      and u = demoMarketer and perm = storageHasPermission]
  from t dst q src
  have "snd (moveStock 30 demoStore2 demoMove3) = demoStore2"
    and "fst (moveStock 30 demoStore2 demoMove3) = Inl (InsufficientStock (Some 1))"
    by simp_all
  then have m: "moveStock 30 demoStore2 demoMove3 =
      (Inl (InsufficientStock (Some 1)), demoStore2)"
    by (simp add: prod_eq_iff)
  from t schema perm
  have r: "\<exists>e. postMovements storageHasPermission (moveStock 30) demoStore2 (Some demoMarketer)
            demoBody3 = (Next e, demoStore2)"
    by blast
  from item avail q dst m schema perm r show ?thesis by simp
qed

subsection \<open>The ledger invariant and the edit of an item\<close>

lemma demo_users:
  "snd (createUser 0 (snd (createUser 0 (snd (createUser 0 emptyStore
      (demoNewUser ''rep1'' ''medicalRep''))) (demoNewUser ''rep2'' ''medicalRep'')))
      (demoNewUser ''mark'' ''marketer'')) =
   demoStore0\<lparr>stockItems := [], stockItemSeq := 1\<rparr>"
  by (simp add: createUser_def emptyStore_def demoNewUser_def demo_defs Let_def)

lemma demo_schema:
  "extendedInsertStockItemSchema demoNewItem = Some (demoNewItem\<lparr>isi_price := Some 0\<rparr>)"
  by (simp add: extendedInsertStockItemSchema_def demoNewItem_def)

lemma demo_item:
  "snd (createStockItem 0 (demoStore0\<lparr>stockItems := [], stockItemSeq := 1\<rparr>)
     (demoNewItem\<lparr>isi_price := Some 0\<rparr>)) = demoStore0"
  by (simp add: createStockItem_def demoNewItem_def demo_defs Let_def)

lemma reachable_demoStore0: "reachable demoStore0"
proof -
  have "reachable (demoStore0\<lparr>stockItems := [], stockItemSeq := 1\<rparr>)"
    unfolding demo_users [symmetric] by (intro reachable.intros)
  from reachable.item_created [OF this demo_schema, of 0] show ?thesis
    by (simp add: demo_item)
qed

lemma reachable_demoStore2: "reachable demoStore2"
proof -
  have "reachable (snd (moveStock 10 demoStore0 demoMove1))"
    using reachable_demoStore0 by (rule reachable.stock_moved)
  then have "reachable demoStore1" by (simp add: demo_move1)
  then have "reachable (snd (moveStock 20 demoStore1 demoMove2))"
    by (rule reachable.stock_moved)
  then show ?thesis by (simp add: demo_move2)
qed

text \<open>
  C2. The invariant, that every stock item has a quantity that is not negative and
  allocations that sum to at most that quantity, holds of the stores of the scenario,
  before and after the two movements, and it does not hold of every reachable store.
  \<^verbatim>\<open>PUT /api/stock-items/:id\<close> passes \<^verbatim>\<open>parseInt(quantity)\<close> to the storage layer
  unchecked, where \<^verbatim>\<open>POST /api/stock-items\<close> refuses a negative quantity. A marketer's
  edit of item 1 to the quantity -5 is answered 200 and leaves a negative quantity, and an
  edit to the quantity 10 when 30 are allocated leaves allocations above the quantity.
\<close>

theorem put_stock_item_unvalidated:
  "putStockItemRoute demoJoin ''/app'' toCents toISOString (updateStockItem dateOf) demoServer
      (Some demoMarketer) ''1'' (demoEdit (JStr ''-5'')) NoFile =
     (Respond 200 (ItemJson (demoItem\<lparr>si_quantity := - 5\<rparr>)),
      demoServer\<lparr>sv_store := demoStore0\<lparr>stockItems := [demoItem\<lparr>si_quantity := - 5\<rparr>]\<rparr>\<rparr>)
   \<and> extendedInsertStockItemSchema (demoNewItem\<lparr>isi_quantity := - 5\<rparr>) = None
   \<and> reachable demoStore0 \<and> ledgerInvariant demoStore0
   \<and> reachable (demoStore0\<lparr>stockItems := [demoItem\<lparr>si_quantity := - 5\<rparr>]\<rparr>)
   \<and> \<not> ledgerInvariant (demoStore0\<lparr>stockItems := [demoItem\<lparr>si_quantity := - 5\<rparr>]\<rparr>)
   \<and> putStockItemRoute demoJoin ''/app'' toCents toISOString (updateStockItem dateOf)
        (demoServer\<lparr>sv_store := demoStore2\<rparr>) (Some demoMarketer) ''1''
        (demoEdit (JStr ''10'')) NoFile =
     (Respond 200 (ItemJson (demoItem\<lparr>si_quantity := 10\<rparr>)),
      demoServer\<lparr>sv_store := demoStore2\<lparr>stockItems := [demoItem\<lparr>si_quantity := 10\<rparr>]\<rparr>\<rparr>)
   \<and> reachable demoStore2 \<and> ledgerInvariant demoStore2
   \<and> reachable (demoStore2\<lparr>stockItems := [demoItem\<lparr>si_quantity := 10\<rparr>]\<rparr>)
   \<and> sumAllocations (demoStore2\<lparr>stockItems := [demoItem\<lparr>si_quantity := 10\<rparr>]\<rparr>) 1 = 30
   \<and> \<not> ledgerInvariant (demoStore2\<lparr>stockItems := [demoItem\<lparr>si_quantity := 10\<rparr>]\<rparr>)"
proof -
  have gates: "runGates (editGates (demoServer\<lparr>sv_store := s\<rparr>) (Some demoMarketer)) = Pass"
    if "users s = demoUsers" for s
    using that
    by (simp add: editGates_def isAuthenticated_def hasPermission_def demoMarketer_def
        storageHasPermission_def lookupPermission_def ROLE_PERMISSIONS_def getUser_def
        demoUsers_def demoUser_def)
  have id: "parseIntString ''1'' = Dec 1 0"
    and q5: "parseIntString ''-5'' = Dec (- 5) 0"
    and q10: "parseIntString ''10'' = Dec 10 0"
    by (simp_all add: js_defs Let_def)
  have data: "updateData toCents toISOString (demoEdit (JStr q)) =
      demoEdit (JNum (parseIntString q))" for q
    by (simp add: updateData_def demoEdit_def parseIntIfDefined_def centsIfDefined_def
        convertExpiry_def)
  have patch: "patchRow dateOf (demoEdit (JNum (Dec q 0))) i = Some (i\<lparr>si_quantity := q\<rparr>)"
    for q i
    by (simp add: patchRow_def demoEdit_def textColumn_def integerColumn_def
        nullableText_def nullableInteger_def nullableTimestamp_def rowId_def)
  have update: "updateStockItem dateOf s (Dec 1 0) (demoEdit (JNum (Dec q 0))) =
      (Inr (Some (demoItem\<lparr>si_quantity := q\<rparr>)),
       s\<lparr>stockItems := [demoItem\<lparr>si_quantity := q\<rparr>]\<rparr>)"
    if "stockItems s = [demoItem]" for s q
    using that
    by (simp add: updateStockItem_def getStockItemJs_def rowId_def getStockItem_def patch
        demoItem_def)
  have route: "putStockItemRoute demoJoin ''/app'' toCents toISOString (updateStockItem dateOf)
        (demoServer\<lparr>sv_store := s\<rparr>) (Some demoMarketer) ''1'' (demoEdit (JStr q)) NoFile =
     (Respond 200 (ItemJson (demoItem\<lparr>si_quantity := n\<rparr>)),
      demoServer\<lparr>sv_store := s\<lparr>stockItems := [demoItem\<lparr>si_quantity := n\<rparr>]\<rparr>\<rparr>)"
    if "users s = demoUsers" and "stockItems s = [demoItem]"
      and "parseIntString q = Dec n 0" for s q n
    using gates [OF that(1)] update [OF that(2)] that(3)
    by (simp add: putStockItemRoute_def putStockItemHandler_def sendUpdated_def id data)
  have s0: "users demoStore0 = demoUsers" "stockItems demoStore0 = [demoItem]"
    and s2: "users demoStore2 = demoUsers" "stockItems demoStore2 = [demoItem]"
    and sv: "demoServer\<lparr>sv_store := demoStore0\<rparr> = demoServer"
    by (simp_all add: demoStore0_def demoStore2_def demoServer_def)
  have 1: "putStockItemRoute demoJoin ''/app'' toCents toISOString (updateStockItem dateOf)
        demoServer (Some demoMarketer) ''1'' (demoEdit (JStr ''-5'')) NoFile =
     (Respond 200 (ItemJson (demoItem\<lparr>si_quantity := - 5\<rparr>)),
      demoServer\<lparr>sv_store := demoStore0\<lparr>stockItems := [demoItem\<lparr>si_quantity := - 5\<rparr>]\<rparr>\<rparr>)"
    using route [OF s0 q5] by (simp add: sv)
  have 2: "extendedInsertStockItemSchema (demoNewItem\<lparr>isi_quantity := - 5\<rparr>) = None"
    by (simp add: extendedInsertStockItemSchema_def demoNewItem_def)
  have 3: "ledgerInvariant demoStore0" "ledgerInvariant demoStore2"
    by (simp_all add: ledgerInvariant_def itemInvariant_def sumAllocations_def demo_defs)
  have 4: "reachable (demoStore0\<lparr>stockItems := [demoItem\<lparr>si_quantity := - 5\<rparr>]\<rparr>)"
    using reachable.item_updated [OF reachable_demoStore0, of dateOf "Dec 1 0"
        "demoEdit (JNum (Dec (- 5) 0))"]
    by (simp add: update [OF s0(2)])
  have 5: "\<not> ledgerInvariant (demoStore0\<lparr>stockItems := [demoItem\<lparr>si_quantity := - 5\<rparr>]\<rparr>)"
    by (simp add: ledgerInvariant_def itemInvariant_def)
  have 6: "putStockItemRoute demoJoin ''/app'' toCents toISOString (updateStockItem dateOf)
        (demoServer\<lparr>sv_store := demoStore2\<rparr>) (Some demoMarketer) ''1''
        (demoEdit (JStr ''10'')) NoFile =
     (Respond 200 (ItemJson (demoItem\<lparr>si_quantity := 10\<rparr>)),
      demoServer\<lparr>sv_store := demoStore2\<lparr>stockItems := [demoItem\<lparr>si_quantity := 10\<rparr>]\<rparr>\<rparr>)"
    by (rule route [OF s2 q10])
  have 7: "reachable (demoStore2\<lparr>stockItems := [demoItem\<lparr>si_quantity := 10\<rparr>]\<rparr>)"
    using reachable.item_updated [OF reachable_demoStore2, of dateOf "Dec 1 0"
        "demoEdit (JNum (Dec 10 0))"]
    by (simp add: update [OF s2(2)])
  have 8: "sumAllocations (demoStore2\<lparr>stockItems := [demoItem\<lparr>si_quantity := 10\<rparr>]\<rparr>) 1 = 30"
    by (simp add: sumAllocations_def demo_defs)
  have 9: "\<not> ledgerInvariant (demoStore2\<lparr>stockItems := [demoItem\<lparr>si_quantity := 10\<rparr>]\<rparr>)"
    using 8 by (simp add: ledgerInvariant_def itemInvariant_def demoItem_def)
  show ?thesis
    by (intro conjI)
      (rule 1, rule 2, rule reachable_demoStore0, rule 3(1), rule 4, rule 5, rule 6,
        rule reachable_demoStore2, rule 3(2), rule 7, rule 8, rule 9)
qed

subsection \<open>Transfers\<close>

text \<open>
  C3. A successful movement has a positive quantity \<open>q\<close> and leaves the rows of the stock
  items, and so the item's total quantity, as they were. From central inventory to a user,
  the user's allocation grows by exactly \<open>q\<close> and the central-available amount (the item's
  quantity minus the sum of its allocations) shrinks by exactly \<open>q\<close>. From a user A, who
  then holds at least \<open>q\<close>, to another user B, the allocation of A shrinks by exactly \<open>q\<close>
  and the allocation of B grows by exactly \<open>q\<close>.
\<close>

theorem moveStock_transfers:
  assumes "moveStock now s a = (Inr m, s')"
  shows "\<exists>item. getStockItem s (ma_stockItemId a) = Some item
      \<and> getStockItem s' (ma_stockItemId a) = Some item
      \<and> stockItems s' = stockItems s
      \<and> 0 < ma_quantity a
      \<and> (case ma_fromUserId a of
            None \<Rightarrow>
              userAllocation s' (ma_toUserId a) (ma_stockItemId a) =
                userAllocation s (ma_toUserId a) (ma_stockItemId a) + ma_quantity a
              \<and> availableAtSource s' item None = availableAtSource s item None - ma_quantity a
          | Some src \<Rightarrow>
              ma_quantity a \<le> userAllocation s src (ma_stockItemId a)
              \<and> (src \<noteq> ma_toUserId a \<longrightarrow>
                   userAllocation s' src (ma_stockItemId a) =
                     userAllocation s src (ma_stockItemId a) - ma_quantity a
                   \<and> userAllocation s' (ma_toUserId a) (ma_stockItemId a) =
                       userAllocation s (ma_toUserId a) (ma_stockItemId a) + ma_quantity a))"
proof -
  from moveStock_success [OF assms] obtain item where
    item: "getStockItem s (ma_stockItemId a) = Some item"
    and pos: "0 < ma_quantity a"
    and avail: "ma_quantity a \<le> availableAtSource s item (ma_fromUserId a)"
    and s': "s' = appendMovement (moved now s a) m"
    by auto
  have id: "si_id item = ma_stockItemId a" using item by (rule getStockItem_id)
  have items: "stockItems s' = stockItems s" by (simp add: s' appendMovement_def)
  with item have item': "getStockItem s' (ma_stockItemId a) = Some item"
    by (simp add: getStockItem_def)
  note sum = sumAllocations_moved [OF pos avail id, of now]
  note ua = userAllocation_moved [OF pos avail id, of now]
  have "case ma_fromUserId a of
            None \<Rightarrow>
              userAllocation s' (ma_toUserId a) (ma_stockItemId a) =
                userAllocation s (ma_toUserId a) (ma_stockItemId a) + ma_quantity a
              \<and> availableAtSource s' item None = availableAtSource s item None - ma_quantity a
          | Some src \<Rightarrow>
              ma_quantity a \<le> userAllocation s src (ma_stockItemId a)
              \<and> (src \<noteq> ma_toUserId a \<longrightarrow>
                   userAllocation s' src (ma_stockItemId a) =
                     userAllocation s src (ma_stockItemId a) - ma_quantity a
                   \<and> userAllocation s' (ma_toUserId a) (ma_stockItemId a) =
                       userAllocation s (ma_toUserId a) (ma_stockItemId a) + ma_quantity a)"
  proof (cases "ma_fromUserId a")
    case None
    then show ?thesis by (simp add: s' sum ua availableAtSource_def id)
  next
    case (Some src)
    with avail id have "ma_quantity a \<le> userAllocation s src (ma_stockItemId a)"
      by (simp add: availableAtSource_def)
    with Some show ?thesis by (simp add: s' ua)
  qed
  with item item' items pos show ?thesis by blast
qed

text \<open>The two movements of the scenario: 30 from central to user 1, 10 from user 1 to user 2.\<close>

theorem moveStock_transfers_witness:
  "moveStock 10 demoStore0 demoMove1 = (Inr demoMovement1, demoStore1)
   \<and> userAllocation demoStore0 1 1 = 0 \<and> userAllocation demoStore1 1 1 = 30
   \<and> availableAtSource demoStore0 demoItem None = 100
   \<and> availableAtSource demoStore1 demoItem None = 70
   \<and> moveStock 20 demoStore1 demoMove2 = (Inr demoMovement2, demoStore2)
   \<and> userAllocation demoStore2 1 1 = 20 \<and> userAllocation demoStore2 2 1 = 10
   \<and> stockItems demoStore2 = stockItems demoStore0"
proof -
  have a1: "ma_fromUserId demoMove1 = None" "ma_toUserId demoMove1 = 1"
    "ma_stockItemId demoMove1 = 1" "ma_quantity demoMove1 = 30"
    and a2: "ma_fromUserId demoMove2 = Some 1" "ma_toUserId demoMove2 = 2"
    "ma_stockItemId demoMove2 = 1" "ma_quantity demoMove2 = 10"
    by (simp_all add: demo_defs)
  have before: "userAllocation demoStore0 1 1 = 0" "userAllocation demoStore0 2 1 = 0"
    "availableAtSource demoStore0 demoItem None = 100"
    "getStockItem demoStore0 1 = Some demoItem" "getStockItem demoStore1 1 = Some demoItem"
    by (simp_all add: storage_defs demo_defs)
  from moveStock_transfers [OF demo_move1] a1 before
  have 1: "userAllocation demoStore1 1 1 = 30"
    "availableAtSource demoStore1 demoItem None = 70"
    "stockItems demoStore1 = stockItems demoStore0"
    by auto
  have "userAllocation demoStore1 2 1 = 0" by (simp add: storage_defs demo_defs)
  with moveStock_transfers [OF demo_move2] a2 1
  have 2: "userAllocation demoStore2 1 1 = 20" "userAllocation demoStore2 2 1 = 10"
    "stockItems demoStore2 = stockItems demoStore1"
    by auto
  from demo_move1 demo_move2 before 1 2 show ?thesis by simp
qed

section \<open>Permissions\<close>

lemma lookupPermission_names:
  "lookupPermission ROLE_PERMISSIONS r p \<Longrightarrow> p \<in> set permissionNames"
  by (simp add: lookupPermission_def ROLE_PERMISSIONS_def permissionNames_def split: if_splits)

lemma lookupPermission_roles:
  "lookupPermission table r p \<Longrightarrow> r \<in> fst ` set table"
  by (force simp: lookupPermission_def split: option.splits dest!: map_of_SomeD)

text \<open>
  C4. The permission check of the storage layer resolves the user's role and looks the
  flag up in \<open>ROLE_PERMISSIONS\<close>: it holds exactly when the table has the role, the role's
  entry has the permission name, and the flag is true; so it is false for a role that is
  not in the table and for a permission name that is not in the table. A user whose role
  is \<^verbatim>\<open>ceo\<close> passes the permission middleware whatever the storage layer would answer;
  for any other user the middleware passes exactly when the storage layer grants the
  permission, and answers 403 otherwise.
\<close>

theorem permission_check:
  "(getUser s uid = Some u \<longrightarrow>
      storageHasPermission s uid p =
        (\<exists>flags. map_of ROLE_PERMISSIONS (u_role u) = Some flags \<and> map_of flags p = Some True))
   \<and> (getUser s uid = Some u \<and> u_role u \<notin> fst ` set ROLE_PERMISSIONS \<longrightarrow>
         \<not> storageHasPermission s uid p)
   \<and> (p \<notin> set permissionNames \<longrightarrow> \<not> storageHasPermission s uid p)
   \<and> (u_role u = ''ceo'' \<longrightarrow> hasPermission anyStorageHasPermission p (Some u) = Pass)
   \<and> (u_role u \<noteq> ''ceo'' \<longrightarrow>
         hasPermission (storageHasPermission s) p (Some u) =
           (if storageHasPermission s (u_id u) p then Pass
            else Reject 403 (Message ''Forbidden: Insufficient permissions'')))"
proof -
  have 1: "storageHasPermission s uid p =
        (\<exists>flags. map_of ROLE_PERMISSIONS (u_role u) = Some flags \<and> map_of flags p = Some True)"
    if "getUser s uid = Some u"
    using that by (auto simp: storageHasPermission_def lookupPermission_def split: option.splits)
  have 2: "\<not> storageHasPermission s uid p"
    if "getUser s uid = Some u" and "u_role u \<notin> fst ` set ROLE_PERMISSIONS"
    using that lookupPermission_roles [of ROLE_PERMISSIONS "u_role u" p]
    by (auto simp: storageHasPermission_def)
  have 3: "\<not> storageHasPermission s uid p" if "p \<notin> set permissionNames"
    using that lookupPermission_names [of _ p]
    by (auto simp: storageHasPermission_def split: option.splits)
  have 4: "hasPermission anyStorageHasPermission p (Some u) = Pass" if "u_role u = ''ceo''"
    using that by (simp add: hasPermission_def)
  have 5: "hasPermission (storageHasPermission s) p (Some u) =
           (if storageHasPermission s (u_id u) p then Pass
            else Reject 403 (Message ''Forbidden: Insufficient permissions''))"
    if "u_role u \<noteq> ''ceo''"
    using that by (simp add: hasPermission_def)
  from 1 2 3 4 5 show ?thesis by blast
qed

text \<open>
  A marketer may move stock and may not manage users; a permission name outside the
  table is denied; a CEO passes even where the lookup denies everything.
\<close>

theorem permission_check_witness:
  "getUser demoStore0 3 = Some (demoUser 3 ''mark'' ''marketer'')
   \<and> storageHasPermission demoStore0 3 ''canMoveStock''
   \<and> \<not> storageHasPermission demoStore0 3 ''canManageUsers''
   \<and> ''canFly'' \<notin> set permissionNames \<and> \<not> storageHasPermission demoStore0 3 ''canFly''
   \<and> u_role demoCeo = ''ceo''
   \<and> hasPermission (\<lambda>uid p. False) ''canFly'' (Some demoCeo) = Pass
   \<and> hasPermission (storageHasPermission demoStore0) ''canMoveStock''
        (Some (demoUser 1 ''rep1'' ''medicalRep''))
       = Reject 403 (Message ''Forbidden: Insufficient permissions'')"
proof -
  have u: "getUser demoStore0 3 = Some (demoUser 3 ''mark'' ''marketer'')"
    by (simp add: getUser_def demo_defs)
  have r: "u_role (demoUser 3 ''mark'' ''marketer'') = ''marketer''" "u_role demoCeo = ''ceo''"
    "u_role (demoUser 1 ''rep1'' ''medicalRep'') \<noteq> ''ceo''"
    "u_id (demoUser 1 ''rep1'' ''medicalRep'') = 1"
    by (simp_all add: demoUser_def demoCeo_def)
  have n: "''canFly'' \<notin> set permissionNames" by (simp add: permissionNames_def)
  have t: "map_of ROLE_PERMISSIONS ''marketer'' =
      Some [(''canViewAll'', False), (''canAddItems'', True), (''canEditItems'', True),
        (''canRemoveItems'', True), (''canMoveStock'', True), (''canManageUsers'', False),
        (''canViewReports'', False), (''canAccessSettings'', False),
        (''canManageSpecialties'', False), (''canSeeAllSpecialties'', False)]"
    by (simp add: ROLE_PERMISSIONS_def)
  have rep: "\<not> storageHasPermission demoStore0 1 ''canMoveStock''"
    by (simp add: storageHasPermission_def lookupPermission_def ROLE_PERMISSIONS_def
        getUser_def demo_defs)
  note pc = permission_check [of demoStore0 3 "demoUser 3 ''mark'' ''marketer''"]
  from pc [of "''canMoveStock''"] u r t have a: "storageHasPermission demoStore0 3 ''canMoveStock''"
    by simp
  from pc [of "''canManageUsers''"] u r t
  have b: "\<not> storageHasPermission demoStore0 3 ''canManageUsers''"
    by simp
  from pc [of "''canFly''"] n have c: "\<not> storageHasPermission demoStore0 3 ''canFly''"
    by simp
  from permission_check [where u = demoCeo and p = "''canFly''"
      and anyStorageHasPermission = "\<lambda>uid p. False"] r
  have d: "hasPermission (\<lambda>uid p. False) ''canFly'' (Some demoCeo) = Pass"
    by simp
  from permission_check [where s = demoStore0 and u = "demoUser 1 ''rep1'' ''medicalRep''"
      and p = "''canMoveStock''"] r rep
  have e: "hasPermission (storageHasPermission demoStore0) ''canMoveStock''
        (Some (demoUser 1 ''rep1'' ''medicalRep''))
       = Reject 403 (Message ''Forbidden: Insufficient permissions'')"
    by simp
  from u a b n c r d e show ?thesis by simp
qed

section \<open>POST /api/movements\<close>

lemma runGates_two:
  "runGates [g1, g2] = (case g1 of Reject st bd \<Rightarrow> Reject st bd | Pass \<Rightarrow> g2)"
  by (cases g1; cases g2) simp_all




subsection \<open>Quantities that are not positive integers\<close>

lemma int_div_less:
  assumes "0 < d" and "m < c * d"
  shows "(m::int) div d < c"
proof -
  have "m = d * (m div d) + m mod d" by simp
  moreover have "0 \<le> m mod d" using assms by simp
  ultimately have "d * (m div d) \<le> m" by linarith
  moreover have "c * d = d * c" by simp
  ultimately have "d * (m div d) < d * c" using assms(2) by linarith
  with assms(1) show ?thesis by (simp add: mult_less_cancel_left_pos)
qed

lemma leadingDigit_range: "0 < n \<Longrightarrow> 0 < leadingDigit n \<and> leadingDigit n < 10"
proof (induction n rule: leadingDigit.induct)
  case (1 n)
  show ?case
  proof (cases "n < 10")
    case True
    with 1 show ?thesis by (simp add: leadingDigit.simps)
  next
    case False
    then have "0 < n div 10" by simp
    with 1 False show ?thesis by (simp add: leadingDigit.simps [of n])
  qed
qed

lemma parseIntNumber_plain:
  "printsPlain m k \<Longrightarrow> parseIntNumber (Dec m k) = Dec (truncated m k) 0"
  by (auto simp: parseIntNumber_def printsPlain_def truncated_def)

lemma parseIntNumber_exponent:
  "\<not> printsPlain m k \<Longrightarrow> parseIntNumber (Dec m k) = Dec (sgn m * leadingDigit \<bar>m\<bar>) 0"
  by (auto simp: parseIntNumber_def printsPlain_def)

lemma parseIntNumber_integer:
  assumes "\<bar>r\<bar> < 10 ^ 21"
  shows "parseIntNumber (Dec r 0) = Dec r 0"
proof -
  have "r \<noteq> 0 \<longrightarrow> 1 \<le> \<bar>r\<bar> * 1000000" by arith
  with assms show ?thesis by (simp add: parseIntNumber_def sgn_mult_abs)
qed

lemma parseIntNumber_Dec:
  "\<exists>r. parseIntNumber (Dec m k) = Dec r 0 \<and> \<bar>r\<bar> < 10 ^ 21"
proof (cases "m = 0")
  case True
  then show ?thesis by (simp add: parseIntNumber_def)
next
  case m: False
  show ?thesis
  proof (cases "printsPlain m k")
    case True
    with m have "\<bar>m\<bar> < 10 ^ 21 * 10 ^ k" by (simp add: printsPlain_def power_add)
    then have "\<bar>m\<bar> div 10 ^ k < 10 ^ 21" by (simp add: int_div_less)
    moreover have "\<bar>truncated m k\<bar> = \<bar>m\<bar> div 10 ^ k"
      using m by (simp add: truncated_def abs_mult pos_imp_zdiv_nonneg_iff)
    ultimately show ?thesis using True by (simp add: parseIntNumber_plain)
  next
    case False
    from m have "0 < \<bar>m\<bar>" by simp
    from leadingDigit_range [OF this]
    have "\<bar>sgn m * leadingDigit \<bar>m\<bar>\<bar> < 10 ^ 21" using m by (simp add: abs_mult)
    with False show ?thesis by (simp add: parseIntNumber_exponent)
  qed
qed

lemma parseIntNumber_idem: "parseIntNumber (parseIntNumber q) = parseIntNumber q"
proof (cases q)
  case (Dec m k)
  from parseIntNumber_Dec [of m k] obtain r
    where "parseIntNumber (Dec m k) = Dec r 0" and "\<bar>r\<bar> < 10 ^ 21" by blast
  with Dec show ?thesis by (simp add: parseIntNumber_integer)
qed (simp_all add: parseIntNumber_def)

lemma zNumber_coerceField:
  "zNumber (coerceField (JNum (parseIntNumber q))) = zNumber (coerceField (JNum q))"
proof (cases q)
  case (Dec m k)
  from parseIntNumber_Dec [of m k] obtain r
    where r: "parseIntNumber (Dec m k) = Dec r 0" "\<bar>r\<bar> < 10 ^ 21" by blast
  show ?thesis
  proof (cases "m = 0")
    case True
    with Dec show ?thesis by (simp add: coerceField_def parseIntNumber_def zNumber_def)
  next
    case False
    with Dec r show ?thesis
      by (simp add: coerceField_def parseIntNumber_integer zNumber_def)
  qed
qed (simp_all add: coerceField_def parseIntNumber_def)

lemma zNumber_coerceField_Dec: "zNumber (coerceField (JNum (Dec m k))) \<noteq> None"
proof -
  from parseIntNumber_Dec [of m k] obtain r
    where "parseIntNumber (Dec m k) = Dec r 0" by blast
  then show ?thesis
    by (cases "m = 0") (simp_all add: coerceField_def zNumber_def)
qed

lemma zNumber_coerceField_integer:
  assumes "\<bar>n\<bar> < 10 ^ 21"
  shows "zNumber (coerceField (JNum (Dec n 0))) = Some n"
  using parseIntNumber_integer [OF assms]
  by (simp add: coerceField_def zNumber_def)

text \<open>
  C7, as amended. A call of the movement operation with an integer quantity that is zero
  or negative fails with \<open>InvalidArgument\<close> and leaves the store, and so the movement log,
  unchanged; through the handler such a request ends in \<^verbatim>\<open>next(InvalidArgument)\<close>, and
  it is the operation that refuses it: an integer quantity passes the handler and the
  schema as it is, whatever its sign. A
  quantity that is a finite number and not an integer is not rejected for it: the schema
  accepts what the handler makes of it, and the handler replaces the quantity \<open>q\<close> by
  \<^verbatim>\<open>parseInt(q)\<close>, so that the request is handled exactly as the request with the
  quantity \<^verbatim>\<open>parseInt(q)\<close>. That is the integer at the start of the decimal string of
  \<open>q\<close>: \<open>q\<close> truncated towards zero when \<open>q\<close> prints without an exponent, and the first
  digit of \<open>q\<close>, with its sign, when \<open>q\<close> prints with an exponent.
\<close>

theorem quantity_validation:
  "(ma_quantity a \<le> 0 \<longrightarrow> moveStock now s a = (Inl InvalidArgument, s))
   \<and> (insertStockMovementSchema (coerceMovementBody b) (u_id u) = Some a
        \<and> ma_quantity a \<le> 0 \<longrightarrow>
        postMovementsHandler (moveStock now) s u b = (Next InvalidArgument, s))
   \<and> (\<bar>n\<bar> < 10 ^ 21 \<longrightarrow>
        zNumber (mb_quantity (coerceMovementBody (b\<lparr>mb_quantity := JNum (Dec n 0)\<rparr>))) = Some n)
   \<and> zNumber (mb_quantity (coerceMovementBody (b\<lparr>mb_quantity := JNum (Dec m k)\<rparr>))) \<noteq> None
   \<and> postMovements perm exec st reqUser (b\<lparr>mb_quantity := JNum q\<rparr>) =
       postMovements perm exec st reqUser (b\<lparr>mb_quantity := JNum (parseIntNumber q)\<rparr>)
   \<and> (printsPlain m k \<longrightarrow> parseIntNumber (Dec m k) = Dec (truncated m k) 0)
   \<and> (\<not> printsPlain m k \<longrightarrow>
        parseIntNumber (Dec m k) = Dec (sgn m * leadingDigit \<bar>m\<bar>) 0)"
proof -
  have 1: "ma_quantity a \<le> 0 \<longrightarrow> moveStock now s a = (Inl InvalidArgument, s)"
    by (simp add: moveStock_def)
  have 2: "insertStockMovementSchema (coerceMovementBody b) (u_id u) = Some a
        \<and> ma_quantity a \<le> 0 \<longrightarrow>
        postMovementsHandler (moveStock now) s u b = (Next InvalidArgument, s)"
    by (simp add: postMovementsHandler_def moveStock_def)
  have 3: "zNumber (mb_quantity (coerceMovementBody (b\<lparr>mb_quantity := JNum (Dec m k)\<rparr>)))
      \<noteq> None"
    by (simp add: coerceMovementBody_def zNumber_coerceField_Dec)
  have 7: "\<bar>n\<bar> < 10 ^ 21 \<longrightarrow>
        zNumber (mb_quantity (coerceMovementBody (b\<lparr>mb_quantity := JNum (Dec n 0)\<rparr>))) = Some n"
    by (simp add: coerceMovementBody_def zNumber_coerceField_integer)
  have "insertStockMovementSchema (coerceMovementBody (b\<lparr>mb_quantity := JNum q\<rparr>)) i =
      insertStockMovementSchema
        (coerceMovementBody (b\<lparr>mb_quantity := JNum (parseIntNumber q)\<rparr>)) i" for i
    by (simp add: insertStockMovementSchema_def coerceMovementBody_def zNumber_coerceField
        split: option.splits)
  then have 4: "postMovements perm exec st reqUser (b\<lparr>mb_quantity := JNum q\<rparr>) =
       postMovements perm exec st reqUser (b\<lparr>mb_quantity := JNum (parseIntNumber q)\<rparr>)"
    by (simp add: postMovements_def postMovementsHandler_def
        split: gate.splits option.splits)
  have 5: "printsPlain m k \<longrightarrow> parseIntNumber (Dec m k) = Dec (truncated m k) 0"
    by (simp add: parseIntNumber_plain)
  have 6: "\<not> printsPlain m k \<longrightarrow>
        parseIntNumber (Dec m k) = Dec (sgn m * leadingDigit \<bar>m\<bar>) 0"
    by (simp add: parseIntNumber_exponent)
  show ?thesis by (intro conjI) (rule 1, rule 2, rule 7, rule 3, rule 4, rule 5, rule 6)
qed

text \<open>
  C7 as stated fails for a quantity that is not an integer: a marketer's request to move
  2.5 of item 1 is answered 201, and a movement of 2 is recorded and allocated.
\<close>

theorem fractional_quantity_counterexample:
  "\<not> isInteger (Dec 25 1)
   \<and> insertStockMovementSchema (coerceMovementBody (demoBody (JNum (Dec 25 1)))) 3
       = Some (demoMove1\<lparr>ma_quantity := 2\<rparr>)
   \<and> fst (postMovements storageHasPermission (moveStock 10) demoStore0 (Some demoMarketer)
          (demoBody (JNum (Dec 25 1))))
       = Respond 201 (MovementJson (demoMovement1\<lparr>mv_quantity := 2\<rparr>))
   \<and> stockMovements (snd (postMovements storageHasPermission (moveStock 10) demoStore0
          (Some demoMarketer) (demoBody (JNum (Dec 25 1)))))
       = [demoMovement1\<lparr>mv_quantity := 2\<rparr>]
   \<and> userAllocation (snd (postMovements storageHasPermission (moveStock 10) demoStore0
          (Some demoMarketer) (demoBody (JNum (Dec 25 1))))) 1 1 = 2"
proof -
  have schema: "insertStockMovementSchema (coerceMovementBody (demoBody (JNum (Dec 25 1)))) 3
      = Some (demoMove1\<lparr>ma_quantity := 2\<rparr>)"
    by (simp add: js_defs demoBody_def demo_defs)
  have move: "moveStock 10 demoStore0 (demoMove1\<lparr>ma_quantity := 2\<rparr>) =
      (Inr (demoMovement1\<lparr>mv_quantity := 2\<rparr>),
       demoStore1\<lparr>stockAllocations := [demoAllocation 1 1 2 10],
                  stockMovements := [demoMovement1\<lparr>mv_quantity := 2\<rparr>]\<rparr>)"
    by (simp add: moveStock_def storage_defs demo_defs Let_def)
  have perm: "storageHasPermission demoStore0 3 ''canMoveStock''" "u_id demoMarketer = 3"
    "u_role demoMarketer \<noteq> ''ceo''"
    by (simp_all add: demoMarketer_def storageHasPermission_def lookupPermission_def
        ROLE_PERMISSIONS_def getUser_def demo_defs)
  have "postMovements storageHasPermission (moveStock 10) demoStore0 (Some demoMarketer)
          (demoBody (JNum (Dec 25 1))) =
        (Respond 201 (MovementJson (demoMovement1\<lparr>mv_quantity := 2\<rparr>)),
         demoStore1\<lparr>stockAllocations := [demoAllocation 1 1 2 10],
                  stockMovements := [demoMovement1\<lparr>mv_quantity := 2\<rparr>]\<rparr>)"
    using perm schema move
    by (simp add: postMovements_def postMovementsHandler_def isAuthenticated_def
        hasPermission_def)
  with schema show ?thesis
    by (simp add: isInteger_def userAllocation_def findAllocation_def demo_defs)
qed

text \<open>
  Quantities 0 and -3 are refused, and it is the operation that refuses -3, which passes
  the schema; 2.5 is handled as 2, its truncation; \<open>5e-7\<close> is handled as 5, and not as its
  truncation 0.
\<close>

theorem quantity_validation_witness:
  "ma_quantity (demoMove1\<lparr>ma_quantity := 0\<rparr>) \<le> 0
   \<and> moveStock 10 demoStore0 (demoMove1\<lparr>ma_quantity := 0\<rparr>) = (Inl InvalidArgument, demoStore0)
   \<and> zNumber (mb_quantity (coerceMovementBody (demoBody (JNum (Dec (- 3) 0))))) = Some (- 3)
   \<and> postMovementsHandler (moveStock 10) demoStore0 demoMarketer (demoBody (JNum (Dec (- 3) 0)))
       = (Next InvalidArgument, demoStore0)
   \<and> printsPlain 25 1 \<and> truncated 25 1 = 2 \<and> parseIntNumber (Dec 25 1) = Dec 2 0
   \<and> postMovements storageHasPermission (moveStock 10) demoStore0 (Some demoMarketer)
         (demoBody (JNum (Dec 25 1))) =
       postMovements storageHasPermission (moveStock 10) demoStore0 (Some demoMarketer)
         (demoBody (JNum (Dec 2 0)))
   \<and> \<not> printsPlain 5 7 \<and> truncated 5 7 = 0 \<and> parseIntNumber (Dec 5 7) = Dec 5 0
   \<and> postMovements storageHasPermission (moveStock 10) demoStore0 (Some demoMarketer)
         (demoBody (JNum (Dec 5 7))) =
       postMovements storageHasPermission (moveStock 10) demoStore0 (Some demoMarketer)
         (demoBody (JNum (Dec 5 0)))"
proof -
  note qv = quantity_validation [where now = 10 and s = demoStore0 and st = demoStore0
      and u = demoMarketer and exec = "moveStock 10" and perm = storageHasPermission
      and reqUser = "Some demoMarketer"]
  have q0: "ma_quantity (demoMove1\<lparr>ma_quantity := 0\<rparr>) \<le> 0" by simp
  have pp: "printsPlain 25 1" "truncated 25 1 = 2" "\<not> printsPlain 5 7" "truncated 5 7 = 0"
    "sgn (5::int) * leadingDigit \<bar>5\<bar> = 5"
    by (simp_all add: printsPlain_def truncated_def leadingDigit.simps)
  have bodies: "(demoBody JNull)\<lparr>mb_quantity := JNum n\<rparr> = demoBody (JNum n)" for n
    by (simp add: demoBody_def)
  have schema: "insertStockMovementSchema (coerceMovementBody (demoBody (JNum (Dec (- 3) 0))))
      (u_id demoMarketer) = Some (demoMove1\<lparr>ma_quantity := - 3\<rparr>)"
    by (simp add: js_defs demoBody_def demo_defs demoMarketer_def)
  from qv [where a = "demoMove1\<lparr>ma_quantity := 0\<rparr>"] q0
  have 1: "moveStock 10 demoStore0 (demoMove1\<lparr>ma_quantity := 0\<rparr>) = (Inl InvalidArgument, demoStore0)"
    by blast
  from qv [where b = "demoBody (JNum (Dec (- 3) 0))" and a = "demoMove1\<lparr>ma_quantity := - 3\<rparr>"]
    schema
  have 2: "postMovementsHandler (moveStock 10) demoStore0 demoMarketer
      (demoBody (JNum (Dec (- 3) 0))) = (Next InvalidArgument, demoStore0)"
    by simp
  from qv [where n = "- 3" and b = "demoBody JNull" and m = 0 and k = 0 and a = demoMove1
      and q = NaN, THEN conjunct2, THEN conjunct2, THEN conjunct1, unfolded bodies]
  have 7: "zNumber (mb_quantity (coerceMovementBody (demoBody (JNum (Dec (- 3) 0))))) = Some (- 3)"
    by simp
  from qv [where m = 25 and k = 1] pp
  have 3: "parseIntNumber (Dec 25 1) = Dec 2 0" by simp
  from qv [where m = 5 and k = 7] pp
  have 4: "parseIntNumber (Dec 5 7) = Dec 5 0" by simp
  from qv [where q = "Dec 25 1" and b = "demoBody JNull" and m = 0 and k = 0 and n = 0
      and a = demoMove1, THEN conjunct2, THEN conjunct2, THEN conjunct2, THEN conjunct2,
      THEN conjunct1, unfolded bodies]
  have 5: "postMovements storageHasPermission (moveStock 10) demoStore0 (Some demoMarketer)
         (demoBody (JNum (Dec 25 1))) =
       postMovements storageHasPermission (moveStock 10) demoStore0 (Some demoMarketer)
         (demoBody (JNum (Dec 2 0)))"
    by (simp only: 3)
  from qv [where q = "Dec 5 7" and b = "demoBody JNull" and m = 0 and k = 0 and n = 0
      and a = demoMove1, THEN conjunct2, THEN conjunct2, THEN conjunct2, THEN conjunct2,
      THEN conjunct1, unfolded bodies]
  have 6: "postMovements storageHasPermission (moveStock 10) demoStore0 (Some demoMarketer)
         (demoBody (JNum (Dec 5 7))) =
       postMovements storageHasPermission (moveStock 10) demoStore0 (Some demoMarketer)
         (demoBody (JNum (Dec 5 0)))"
    by (simp only: 4)
  from q0 1 7 2 pp(1-4) 3 4 5 6 show ?thesis by (intro conjI)
qed

section \<open>GET /api/stock-items/expiring\<close>

lemma zCoerceIntMin_Some:
  "(zCoerceIntMin lo n = Some d) =
   (\<exists>m k. n = Dec m k \<and> m mod 10 ^ k = 0 \<and> m div 10 ^ k = d \<and> lo \<le> d)"
  by (cases n) (auto simp: zCoerceIntMin_def)

text \<open>
  C6. A missing \<^verbatim>\<open>days\<close> and the empty string are parsed as the string \<^verbatim>\<open>"30"\<close> is,
  so as 30. Any other value is accepted exactly when \<^verbatim>\<open>Number\<close> makes of it an integer
  that is at least 1, and that integer is the result; a value that is not positive, not
  an integer or not a number raises \<^verbatim>\<open>ZodError\<close>. No integer from 1 upwards is refused:
  there is no upper bound. For an authenticated user the response to a valid request is 200
  with what \<^verbatim>\<open>storage.getExpiringItems(days)\<close> returns, which is exactly the stock items
  whose expiry timestamp lies in \<open>[now, now + days]\<close>; without a session it is 401.
\<close>

theorem expiring_days:
  "daysQuerySchema toNumber None = zCoerceIntMin 1 (toNumber (QStr ''30''))
   \<and> daysQuerySchema toNumber (Some (QStr [])) = zCoerceIntMin 1 (toNumber (QStr ''30''))
   \<and> (toNumber (QStr ''30'') = Dec 30 0 \<longrightarrow>
        daysQuerySchema toNumber None = Some 30
        \<and> daysQuerySchema toNumber (Some (QStr [])) = Some 30)
   \<and> (w \<noteq> QStr [] \<longrightarrow>
        (daysQuerySchema toNumber (Some w) = Some d) =
        (\<exists>m k. toNumber w = Dec m k \<and> m mod 10 ^ k = 0 \<and> m div 10 ^ k = d \<and> 1 \<le> d))
   \<and> (w \<noteq> QStr [] \<and> 1 \<le> n \<and> toNumber w = Dec n 0 \<longrightarrow>
        daysQuerySchema toNumber (Some w) = Some n)
   \<and> getExpiring toNumber expiring s None q = Respond 401 (Message ''Unauthorized'')
   \<and> (daysQuerySchema toNumber q = None \<longrightarrow>
        getExpiring toNumber expiring s (Some u) q = Next ZodError)
   \<and> (daysQuerySchema toNumber q = Some d \<longrightarrow>
        getExpiring toNumber expiring s (Some u) q = Respond 200 (ItemsJson (expiring s d))
        \<and> getExpiring toNumber (getExpiringItems now) st (Some u) q =
            Respond 200 (ItemsJson (filter (expiresWithin now d) (stockItems st)))
        \<and> set (filter (expiresWithin now d) (stockItems st)) =
            {i \<in> set (stockItems st).
               \<exists>t. si_expiry i = Some t \<and> now \<le> t \<and> t \<le> now + d * msPerDay})"
proof -
  have c1: "daysQuerySchema toNumber None = zCoerceIntMin 1 (toNumber (QStr ''30''))"
    and c2: "daysQuerySchema toNumber (Some (QStr [])) = zCoerceIntMin 1 (toNumber (QStr ''30''))"
    by (simp_all add: daysQuerySchema_def daysPreprocess_def)
  have c3: "toNumber (QStr ''30'') = Dec 30 0 \<longrightarrow>
        daysQuerySchema toNumber None = Some 30
        \<and> daysQuerySchema toNumber (Some (QStr [])) = Some 30"
    by (simp add: c1 c2 zCoerceIntMin_def)
  have c4: "w \<noteq> QStr [] \<longrightarrow>
        (daysQuerySchema toNumber (Some w) = Some d) =
        (\<exists>m k. toNumber w = Dec m k \<and> m mod 10 ^ k = 0 \<and> m div 10 ^ k = d \<and> 1 \<le> d)"
    by (simp add: daysQuerySchema_def daysPreprocess_def zCoerceIntMin_Some)
  have c5: "w \<noteq> QStr [] \<and> 1 \<le> n \<and> toNumber w = Dec n 0 \<longrightarrow>
        daysQuerySchema toNumber (Some w) = Some n"
    by (simp add: daysQuerySchema_def daysPreprocess_def zCoerceIntMin_def)
  have c6: "getExpiring toNumber expiring s None q = Respond 401 (Message ''Unauthorized'')"
    by (simp add: getExpiring_def isAuthenticated_def)
  have c7: "daysQuerySchema toNumber q = None \<longrightarrow>
        getExpiring toNumber expiring s (Some u) q = Next ZodError"
    by (simp add: getExpiring_def isAuthenticated_def)
  have set_eq: "set (filter (expiresWithin now d) (stockItems st)) =
            {i \<in> set (stockItems st).
               \<exists>t. si_expiry i = Some t \<and> now \<le> t \<and> t \<le> now + d * msPerDay}"
    by (auto simp: expiresWithin_def split: option.splits)
  have c8: "daysQuerySchema toNumber q = Some d \<longrightarrow>
        getExpiring toNumber expiring s (Some u) q = Respond 200 (ItemsJson (expiring s d))
        \<and> getExpiring toNumber (getExpiringItems now) st (Some u) q =
            Respond 200 (ItemsJson (filter (expiresWithin now d) (stockItems st)))
        \<and> set (filter (expiresWithin now d) (stockItems st)) =
            {i \<in> set (stockItems st).
               \<exists>t. si_expiry i = Some t \<and> now \<le> t \<and> t \<le> now + d * msPerDay}"
    using set_eq by (simp add: getExpiring_def isAuthenticated_def getExpiringItems_def)
  show ?thesis
    by (intro conjI) (rule c1, rule c2, rule c3, rule c4, rule c5, rule c6, rule c7, rule c8)
qed

text \<open>
  The item of the scenario expires at time 5000. At time 0, with no \<^verbatim>\<open>days\<close>, it is
  listed; at time 6000 it has expired and \<^verbatim>\<open>days=7\<close> lists nothing. \<^verbatim>\<open>days=0\<close> is
  refused and \<^verbatim>\<open>days=100000\<close> is accepted.
\<close>

theorem expiring_days_witness:
  "digitsToNumber (QStr ''30'') = Dec 30 0
   \<and> daysQuerySchema digitsToNumber None = Some 30
   \<and> daysQuerySchema digitsToNumber (Some (QStr ''0'')) = None
   \<and> daysQuerySchema digitsToNumber (Some (QStr ''100000'')) = Some 100000
   \<and> getExpiring digitsToNumber (getExpiringItems 0) demoStore0 (Some demoRep) None
       = Respond 200 (ItemsJson [demoItem])
   \<and> getExpiring digitsToNumber (getExpiringItems 6000) demoStore0 (Some demoRep)
        (Some (QStr ''7'')) = Respond 200 (ItemsJson [])
   \<and> getExpiring digitsToNumber (getExpiringItems 0) demoStore0 (Some demoRep)
        (Some (QStr ''0'')) = Next ZodError"
proof -
  have n: "digitsToNumber (QStr ''30'') = Dec 30 0" "digitsToNumber (QStr ''0'') = Dec 0 0"
    "digitsToNumber (QStr ''7'') = Dec 7 0" "digitsToNumber (QStr ''100000'') = Dec 100000 0"
    by (simp_all add: digitsToNumber_def digitValue_def digitsValue_def)
  have f0: "filter (expiresWithin 0 30) (stockItems demoStore0) = [demoItem]"
    and f7: "filter (expiresWithin 6000 7) (stockItems demoStore0) = []"
    by (simp_all add: expiresWithin_def msPerDay_def demo_defs)
  have ne: "QStr ''0'' \<noteq> QStr []" "QStr ''7'' \<noteq> QStr []" "QStr ''100000'' \<noteq> QStr []"
    by simp_all
  note ed0 = expiring_days [where toNumber = digitsToNumber and w = "QStr ''0''" and d = 30
        and n = 100000 and expiring = "getExpiringItems 0" and s = demoStore0 and q = None
        and u = demoRep and now = 0 and st = demoStore0]
  from ed0 n(1) have d30: "daysQuerySchema digitsToNumber None = Some 30"
    by blast
  from ed0 d30
  have "getExpiring digitsToNumber (getExpiringItems 0) demoStore0 (Some demoRep) None =
            Respond 200 (ItemsJson (filter (expiresWithin 0 30) (stockItems demoStore0)))"
    by blast
  then have r1: "getExpiring digitsToNumber (getExpiringItems 0) demoStore0 (Some demoRep) None
       = Respond 200 (ItemsJson [demoItem])"
    by (simp only: f0)
  have d0: "daysQuerySchema digitsToNumber (Some (QStr ''0'')) = None"
  proof (cases "daysQuerySchema digitsToNumber (Some (QStr ''0''))")
    case None
    then show ?thesis .
  next
    case (Some d)
    from expiring_days [where toNumber = digitsToNumber and w = "QStr ''0''" and d = d
        and n = 7 and expiring = "getExpiringItems 0" and s = demoStore0 and q = None
        and u = demoRep and now = 0 and st = demoStore0] ne(1)
    have "(daysQuerySchema digitsToNumber (Some (QStr ''0'')) = Some d) =
        (\<exists>m k. digitsToNumber (QStr ''0'') = Dec m k \<and> m mod 10 ^ k = 0
               \<and> m div 10 ^ k = d \<and> 1 \<le> d)"
      by (elim conjE) (erule impE, assumption+)
    with Some n(2) show ?thesis by auto
  qed
  from expiring_days [where toNumber = digitsToNumber and w = "QStr ''0''" and d = 0
        and n = 7 and expiring = "getExpiringItems 0" and s = demoStore0
        and q = "Some (QStr ''0'')" and u = demoRep and now = 0 and st = demoStore0] d0
  have r3: "getExpiring digitsToNumber (getExpiringItems 0) demoStore0 (Some demoRep)
        (Some (QStr ''0'')) = Next ZodError"
    by blast
  from expiring_days [where toNumber = digitsToNumber and w = "QStr ''100000''" and d = 0
        and n = 100000 and expiring = "getExpiringItems 0" and s = demoStore0
        and q = None and u = demoRep and now = 0 and st = demoStore0] ne(3) n(4)
  have dbig: "daysQuerySchema digitsToNumber (Some (QStr ''100000'')) = Some 100000"
    by simp
  have d7: "daysQuerySchema digitsToNumber (Some (QStr ''7'')) = Some 7"
    by (simp add: daysQuerySchema_def daysPreprocess_def zCoerceIntMin_def n)
  from expiring_days [where toNumber = digitsToNumber and w = "QStr ''7''" and d = 7
        and n = 7 and expiring = "getExpiringItems 6000" and s = demoStore0
        and q = "Some (QStr ''7'')" and u = demoRep and now = 6000 and st = demoStore0] d7
  have "getExpiring digitsToNumber (getExpiringItems 6000) demoStore0 (Some demoRep)
        (Some (QStr ''7'')) =
      Respond 200 (ItemsJson (filter (expiresWithin 6000 7) (stockItems demoStore0)))"
    by blast
  then have r2: "getExpiring digitsToNumber (getExpiringItems 6000) demoStore0 (Some demoRep)
        (Some (QStr ''7'')) = Respond 200 (ItemsJson [])"
    by (simp only: f7)
  from n(1) d30 d0 dbig r1 r2 r3 show ?thesis by simp
qed

section \<open>DELETE /api/stock-items/:id\<close>

lemma find_filter_neg: "find P (filter (\<lambda>x. \<not> P x) xs) = None"
  by (induction xs) auto

lemma getStockItemJs_Some:
  "getStockItemJs s n = Some item \<Longrightarrow> rowId n = Some (si_id item) \<and> getStockItem s (si_id item) = Some item"
  by (auto simp: getStockItemJs_def getStockItem_id split: option.splits)

lemma unlinkImage_directory:
  assumes "url \<noteq> []" and "files (imagePath pathJoin cwd url) = Some Directory"
  shows "unlinkImage pathJoin cwd (Some url) files = Inl (SystemError ''EISDIR'')"
  using assms by (simp add: unlinkImage_def existsSync_def unlinkSync_def)

lemma unlinkImage_locked:
  assumes "url \<noteq> []" and "files (imagePath pathJoin cwd url) = Some LockedFile"
  shows "unlinkImage pathJoin cwd (Some url) files = Inl (SystemError ''EACCES'')"
  using assms by (simp add: unlinkImage_def existsSync_def unlinkSync_def)

lemma unlinkImage_file:
  assumes "url \<noteq> []"
    and "files (imagePath pathJoin cwd url) = None
       \<or> files (imagePath pathJoin cwd url) = Some RegularFile"
  shows "unlinkImage pathJoin cwd (Some url) files =
     Inr (files(imagePath pathJoin cwd url := None))"
proof (cases "files (imagePath pathJoin cwd url)")
  case None
  then have "files(imagePath pathJoin cwd url := None) = files" by (rule fun_upd_idem)
  with None assms(1) show ?thesis by (simp add: unlinkImage_def existsSync_def)
next
  case (Some e)
  with assms(2) have "e = RegularFile" by simp
  with Some assms(1) show ?thesis
    by (simp add: unlinkImage_def existsSync_def unlinkSync_def)
qed

lemma unlinkImage_none:
  "imageUrl = None \<or> imageUrl = Some [] \<Longrightarrow> unlinkImage pathJoin cwd imageUrl files = Inr files"
  by (auto simp: unlinkImage_def)

lemma deleteStockItemHandler_found:
  assumes "getStockItemJs (sv_store sv) (parseInt (JStr idParam)) = Some item"
    and "unlinkImage pathJoin cwd (si_imageUrl item) (sv_files sv) = Inr files'"
  shows "deleteStockItemHandler pathJoin cwd sv idParam =
     (Respond 204 NoBody,
      \<lparr>sv_store = (sv_store sv)\<lparr>stockItems :=
           filter (\<lambda>x. si_id x \<noteq> si_id item) (stockItems (sv_store sv))\<rparr>,
       sv_files = files'\<rparr>)"
  using assms getStockItemJs_Some [OF assms(1)]
  by (simp add: deleteStockItemHandler_def deleteStockItem_def Let_def)

lemma deleteStockItemHandler_failed:
  assumes "getStockItemJs (sv_store sv) (parseInt (JStr idParam)) = Some item"
    and "unlinkImage pathJoin cwd (si_imageUrl item) (sv_files sv) = Inl e"
  shows "deleteStockItemHandler pathJoin cwd sv idParam = (Next e, sv)"
  using assms by (simp add: deleteStockItemHandler_def Let_def)

lemma demoServer2_request:
  "runGates (removeGates demoServer2 (Some demoMarketer)) = Pass"
  "getStockItemJs (sv_store demoServer2) (parseInt (JStr ''2'')) = Some demoFolderItem"
  "si_imageUrl demoFolderItem = Some ''/uploads/''"
  "imagePath demoJoin ''/app'' ''/uploads/'' = ''/app/uploads/''"
  "sv_files demoServer2 ''/app/uploads/'' = Some Directory"
  "getStockItemJs (sv_store demoServer2) (parseInt (JStr ''3'')) = Some demoLockedItem"
  "si_imageUrl demoLockedItem = Some ''/uploads/z.png''"
  "imagePath demoJoin ''/app'' ''/uploads/z.png'' = ''/app/uploads/z.png''"
  "sv_files demoServer2 ''/app/uploads/z.png'' = Some LockedFile"
proof -
  show "runGates (removeGates demoServer2 (Some demoMarketer)) = Pass"
    by (simp add: removeGates_def isAuthenticated_def hasPermission_def demoServer2_def
        demoMarketer_def storageHasPermission_def lookupPermission_def ROLE_PERMISSIONS_def
        getUser_def demo_defs)
  have "parseIntString ''2'' = Dec 2 0" and "parseIntString ''3'' = Dec 3 0"
    by (simp_all add: js_defs Let_def)
  then show
    "getStockItemJs (sv_store demoServer2) (parseInt (JStr ''2'')) = Some demoFolderItem"
    "getStockItemJs (sv_store demoServer2) (parseInt (JStr ''3'')) = Some demoLockedItem"
    by (simp_all add: getStockItemJs_def rowId_def getStockItem_def demoServer2_def
        demoFolderItem_def demoLockedItem_def demo_defs)
  show "si_imageUrl demoFolderItem = Some ''/uploads/''"
    "si_imageUrl demoLockedItem = Some ''/uploads/z.png''"
    by (simp_all add: demoFolderItem_def demoLockedItem_def)
  show "imagePath demoJoin ''/app'' ''/uploads/'' = ''/app/uploads/''"
    "imagePath demoJoin ''/app'' ''/uploads/z.png'' = ''/app/uploads/z.png''"
    by (simp_all add: imagePath_def replaceUploadsPrefix_def demoJoin_def)
  show "sv_files demoServer2 ''/app/uploads/'' = Some Directory"
    "sv_files demoServer2 ''/app/uploads/z.png'' = Some LockedFile"
    by (simp_all add: demoServer2_def demoFiles_def)
qed

text \<open>
  C8, as amended. When a middleware rejects the request, its answer is the response and
  nothing changes. Otherwise, when no stock item has the id, the response is 404 and the
  store and the files are unchanged. When the item exists and what is found at the path of
  its image, if anything, is a regular file that the server may remove, the response is
  204, the item is no longer found and the other items remain, and the file of a non-empty
  \<^verbatim>\<open>imageUrl\<close> no longer exists, every other file remaining; with no \<^verbatim>\<open>imageUrl\<close>
  the files are unchanged. When the path of the image is the path of a directory, or of a
  file that the server may not remove, the handler passes the exception of
  \<^verbatim>\<open>unlinkSync\<close> to the error middleware and nothing changes.
\<close>

theorem delete_stock_item:
  "(runGates (removeGates sv reqUser) = Reject st bd \<longrightarrow>
      deleteStockItemRoute pathJoin cwd sv reqUser idParam = (Respond st bd, sv))
   \<and> (runGates (removeGates sv reqUser) = Pass
        \<and> getStockItemJs (sv_store sv) (parseInt (JStr idParam)) = None \<longrightarrow>
        deleteStockItemRoute pathJoin cwd sv reqUser idParam =
          (Respond 404 (Message ''Stock item not found''), sv))
   \<and> (runGates (removeGates sv reqUser) = Pass
        \<and> getStockItemJs (sv_store sv) (parseInt (JStr idParam)) = Some item
        \<and> (\<forall>url. si_imageUrl item = Some url \<and> url \<noteq> [] \<longrightarrow>
               sv_files sv (imagePath pathJoin cwd url) = None
               \<or> sv_files sv (imagePath pathJoin cwd url) = Some RegularFile) \<longrightarrow>
        fst (deleteStockItemRoute pathJoin cwd sv reqUser idParam) = Respond 204 NoBody
        \<and> getStockItemJs (sv_store (snd (deleteStockItemRoute pathJoin cwd sv reqUser idParam)))
             (parseInt (JStr idParam)) = None
        \<and> stockItems (sv_store (snd (deleteStockItemRoute pathJoin cwd sv reqUser idParam))) =
             filter (\<lambda>x. si_id x \<noteq> si_id item) (stockItems (sv_store sv))
        \<and> (\<forall>url. si_imageUrl item = Some url \<and> url \<noteq> [] \<longrightarrow>
              \<not> existsSync (sv_files (snd (deleteStockItemRoute pathJoin cwd sv reqUser idParam)))
                  (imagePath pathJoin cwd url)
              \<and> sv_files (snd (deleteStockItemRoute pathJoin cwd sv reqUser idParam)) =
                  (sv_files sv)(imagePath pathJoin cwd url := None))
        \<and> (si_imageUrl item = None \<or> si_imageUrl item = Some [] \<longrightarrow>
              sv_files (snd (deleteStockItemRoute pathJoin cwd sv reqUser idParam)) = sv_files sv))
   \<and> (runGates (removeGates sv reqUser) = Pass
        \<and> getStockItemJs (sv_store sv) (parseInt (JStr idParam)) = Some item
        \<and> si_imageUrl item = Some url \<and> url \<noteq> []
        \<and> sv_files sv (imagePath pathJoin cwd url) = Some Directory \<longrightarrow>
        deleteStockItemRoute pathJoin cwd sv reqUser idParam = (Next (SystemError ''EISDIR''), sv))
   \<and> (runGates (removeGates sv reqUser) = Pass
        \<and> getStockItemJs (sv_store sv) (parseInt (JStr idParam)) = Some item
        \<and> si_imageUrl item = Some url \<and> url \<noteq> []
        \<and> sv_files sv (imagePath pathJoin cwd url) = Some LockedFile \<longrightarrow>
        deleteStockItemRoute pathJoin cwd sv reqUser idParam = (Next (SystemError ''EACCES''), sv))"
proof -
  let ?r = "deleteStockItemRoute pathJoin cwd sv reqUser idParam"
  have c1: "runGates (removeGates sv reqUser) = Reject st bd \<longrightarrow> ?r = (Respond st bd, sv)"
    by (simp add: deleteStockItemRoute_def removeGates_def)
  have c2: "runGates (removeGates sv reqUser) = Pass
        \<and> getStockItemJs (sv_store sv) (parseInt (JStr idParam)) = None \<longrightarrow>
        ?r = (Respond 404 (Message ''Stock item not found''), sv)"
    by (simp add: deleteStockItemRoute_def removeGates_def deleteStockItemHandler_def)
  have c3: "runGates (removeGates sv reqUser) = Pass
        \<and> getStockItemJs (sv_store sv) (parseInt (JStr idParam)) = Some item
        \<and> (\<forall>url. si_imageUrl item = Some url \<and> url \<noteq> [] \<longrightarrow>
               sv_files sv (imagePath pathJoin cwd url) = None
               \<or> sv_files sv (imagePath pathJoin cwd url) = Some RegularFile) \<longrightarrow>
        fst ?r = Respond 204 NoBody
        \<and> getStockItemJs (sv_store (snd ?r)) (parseInt (JStr idParam)) = None
        \<and> stockItems (sv_store (snd ?r)) =
             filter (\<lambda>x. si_id x \<noteq> si_id item) (stockItems (sv_store sv))
        \<and> (\<forall>url. si_imageUrl item = Some url \<and> url \<noteq> [] \<longrightarrow>
              \<not> existsSync (sv_files (snd ?r)) (imagePath pathJoin cwd url)
              \<and> sv_files (snd ?r) = (sv_files sv)(imagePath pathJoin cwd url := None))
        \<and> (si_imageUrl item = None \<or> si_imageUrl item = Some [] \<longrightarrow>
              sv_files (snd ?r) = sv_files sv)"
  proof (intro impI, elim conjE)
    assume pass: "runGates (removeGates sv reqUser) = Pass"
      and found: "getStockItemJs (sv_store sv) (parseInt (JStr idParam)) = Some item"
      and plain: "\<forall>url. si_imageUrl item = Some url \<and> url \<noteq> [] \<longrightarrow>
               sv_files sv (imagePath pathJoin cwd url) = None
               \<or> sv_files sv (imagePath pathJoin cwd url) = Some RegularFile"
    define files' where "files' =
      (case si_imageUrl item of
         None \<Rightarrow> sv_files sv
       | Some url \<Rightarrow>
           if url = [] then sv_files sv else (sv_files sv)(imagePath pathJoin cwd url := None))"
    have un: "unlinkImage pathJoin cwd (si_imageUrl item) (sv_files sv) = Inr files'"
    proof (cases "si_imageUrl item")
      case None
      then show ?thesis by (simp add: files'_def unlinkImage_none)
    next
      case (Some url)
      show ?thesis
      proof (cases "url = []")
        case True
        with Some show ?thesis by (simp add: files'_def unlinkImage_none)
      next
        case False
        with Some plain have "sv_files sv (imagePath pathJoin cwd url) = None
            \<or> sv_files sv (imagePath pathJoin cwd url) = Some RegularFile"
          by simp
        from unlinkImage_file [where files = "sv_files sv" and pathJoin = pathJoin
            and cwd = cwd, OF False this] Some False show ?thesis
          by (simp add: files'_def)
      qed
    qed
    have route: "?r =
       (Respond 204 NoBody,
        \<lparr>sv_store = (sv_store sv)\<lparr>stockItems :=
             filter (\<lambda>x. si_id x \<noteq> si_id item) (stockItems (sv_store sv))\<rparr>,
         sv_files = files'\<rparr>)"
      using pass deleteStockItemHandler_found [OF found un]
      by (simp add: deleteStockItemRoute_def removeGates_def)
    from getStockItemJs_Some [OF found]
    have gone: "getStockItemJs ((sv_store sv)\<lparr>stockItems :=
             filter (\<lambda>x. si_id x \<noteq> si_id item) (stockItems (sv_store sv))\<rparr>)
           (parseInt (JStr idParam)) = None"
      by (simp add: getStockItemJs_def getStockItem_def find_filter_neg)
    show "fst ?r = Respond 204 NoBody
        \<and> getStockItemJs (sv_store (snd ?r)) (parseInt (JStr idParam)) = None
        \<and> stockItems (sv_store (snd ?r)) =
             filter (\<lambda>x. si_id x \<noteq> si_id item) (stockItems (sv_store sv))
        \<and> (\<forall>url. si_imageUrl item = Some url \<and> url \<noteq> [] \<longrightarrow>
              \<not> existsSync (sv_files (snd ?r)) (imagePath pathJoin cwd url)
              \<and> sv_files (snd ?r) = (sv_files sv)(imagePath pathJoin cwd url := None))
        \<and> (si_imageUrl item = None \<or> si_imageUrl item = Some [] \<longrightarrow>
              sv_files (snd ?r) = sv_files sv)"
      using gone by (auto simp: route files'_def existsSync_def)
  qed
  have c4: "runGates (removeGates sv reqUser) = Pass
        \<and> getStockItemJs (sv_store sv) (parseInt (JStr idParam)) = Some item
        \<and> si_imageUrl item = Some url \<and> url \<noteq> []
        \<and> sv_files sv (imagePath pathJoin cwd url) = Some Directory \<longrightarrow>
        ?r = (Next (SystemError ''EISDIR''), sv)"
  proof (intro impI, elim conjE)
    assume pass: "runGates (removeGates sv reqUser) = Pass"
      and found: "getStockItemJs (sv_store sv) (parseInt (JStr idParam)) = Some item"
      and url: "si_imageUrl item = Some url" "url \<noteq> []"
      and dir: "sv_files sv (imagePath pathJoin cwd url) = Some Directory"
    from unlinkImage_directory [where files = "sv_files sv" and pathJoin = pathJoin
        and cwd = cwd, OF url(2) dir] url(1)
    have "unlinkImage pathJoin cwd (si_imageUrl item) (sv_files sv) =
        Inl (SystemError ''EISDIR'')"
      by simp
    from deleteStockItemHandler_failed [OF found this] pass
    show "?r = (Next (SystemError ''EISDIR''), sv)"
      by (simp add: deleteStockItemRoute_def removeGates_def)
  qed
  have c5: "runGates (removeGates sv reqUser) = Pass
        \<and> getStockItemJs (sv_store sv) (parseInt (JStr idParam)) = Some item
        \<and> si_imageUrl item = Some url \<and> url \<noteq> []
        \<and> sv_files sv (imagePath pathJoin cwd url) = Some LockedFile \<longrightarrow>
        ?r = (Next (SystemError ''EACCES''), sv)"
  proof (intro impI, elim conjE)
    assume pass: "runGates (removeGates sv reqUser) = Pass"
      and found: "getStockItemJs (sv_store sv) (parseInt (JStr idParam)) = Some item"
      and url: "si_imageUrl item = Some url" "url \<noteq> []"
      and locked: "sv_files sv (imagePath pathJoin cwd url) = Some LockedFile"
    from unlinkImage_locked [where files = "sv_files sv" and pathJoin = pathJoin
        and cwd = cwd, OF url(2) locked] url(1)
    have "unlinkImage pathJoin cwd (si_imageUrl item) (sv_files sv) =
        Inl (SystemError ''EACCES'')"
      by simp
    from deleteStockItemHandler_failed [OF found this] pass
    show "?r = (Next (SystemError ''EACCES''), sv)"
      by (simp add: deleteStockItemRoute_def removeGates_def)
  qed
  show ?thesis by (intro conjI) (rule c1, rule c2, rule c3, rule c4, rule c5)
qed

text \<open>
  C8 as stated fails when the image of the item cannot be removed. Item 2 has the
  \<^verbatim>\<open>imageUrl\<close> \<^verbatim>\<open>/uploads/\<close>, which is the upload directory of the server, and the
  image of item 3 is a file that the server may not remove. A marketer's request to delete
  either item ends in \<^verbatim>\<open>next(error)\<close>, and the item is still there.
\<close>

theorem delete_image_failure_counterexample:
  "runGates (removeGates demoServer2 (Some demoMarketer)) = Pass
   \<and> getStockItemJs (sv_store demoServer2) (parseInt (JStr ''2'')) = Some demoFolderItem
   \<and> si_imageUrl demoFolderItem = Some ''/uploads/''
   \<and> imagePath demoJoin ''/app'' ''/uploads/'' = ''/app/uploads/''
   \<and> sv_files demoServer2 ''/app/uploads/'' = Some Directory
   \<and> deleteStockItemRoute demoJoin ''/app'' demoServer2 (Some demoMarketer) ''2'' =
       (Next (SystemError ''EISDIR''), demoServer2)
   \<and> getStockItemJs
        (sv_store (snd (deleteStockItemRoute demoJoin ''/app'' demoServer2 (Some demoMarketer)
           ''2'')))
        (parseInt (JStr ''2'')) = Some demoFolderItem
   \<and> getStockItemJs (sv_store demoServer2) (parseInt (JStr ''3'')) = Some demoLockedItem
   \<and> si_imageUrl demoLockedItem = Some ''/uploads/z.png''
   \<and> imagePath demoJoin ''/app'' ''/uploads/z.png'' = ''/app/uploads/z.png''
   \<and> sv_files demoServer2 ''/app/uploads/z.png'' = Some LockedFile
   \<and> deleteStockItemRoute demoJoin ''/app'' demoServer2 (Some demoMarketer) ''3'' =
       (Next (SystemError ''EACCES''), demoServer2)
   \<and> getStockItemJs
        (sv_store (snd (deleteStockItemRoute demoJoin ''/app'' demoServer2 (Some demoMarketer)
           ''3'')))
        (parseInt (JStr ''3'')) = Some demoLockedItem"
proof -
  note pass = demoServer2_request(1)
    and found2 = demoServer2_request(2) and url2 = demoServer2_request(3)
    and path2 = demoServer2_request(4) and dir = demoServer2_request(5)
    and found3 = demoServer2_request(6) and url3 = demoServer2_request(7)
    and path3 = demoServer2_request(8) and locked = demoServer2_request(9)
  have "unlinkImage demoJoin ''/app'' (si_imageUrl demoFolderItem) (sv_files demoServer2) =
      Inl (SystemError ''EISDIR'')"
    by (simp add: url2 unlinkImage_def path2 existsSync_def unlinkSync_def dir)
  with pass found2
  have r2: "deleteStockItemRoute demoJoin ''/app'' demoServer2 (Some demoMarketer) ''2'' =
       (Next (SystemError ''EISDIR''), demoServer2)"
    by (simp add: deleteStockItemRoute_def deleteStockItemHandler_def Let_def)
  have "unlinkImage demoJoin ''/app'' (si_imageUrl demoLockedItem) (sv_files demoServer2) =
      Inl (SystemError ''EACCES'')"
    by (simp add: url3 unlinkImage_def path3 existsSync_def unlinkSync_def locked)
  with pass found3
  have r3: "deleteStockItemRoute demoJoin ''/app'' demoServer2 (Some demoMarketer) ''3'' =
       (Next (SystemError ''EACCES''), demoServer2)"
    by (simp add: deleteStockItemRoute_def deleteStockItemHandler_def Let_def)
  from pass found2 url2 path2 dir r2 found3 url3 path3 locked r3 show ?thesis by simp
qed

text \<open>
  A marketer deletes item 1 and its image, a regular file; item 2 does not exist; a
  medical rep may not remove items; and on the server that has items 2 and 3, whose images
  are the upload directory and a file that may not be removed, the requests to delete
  them fail.
\<close>

theorem delete_stock_item_witness:
  "runGates (removeGates demoServer (Some demoMarketer)) = Pass
   \<and> getStockItemJs (sv_store demoServer) (parseInt (JStr ''1'')) = Some demoItem
   \<and> imagePath demoJoin ''/app'' ''/uploads/x.png'' = ''/app/uploads/x.png''
   \<and> sv_files demoServer ''/app/uploads/x.png'' = Some RegularFile
   \<and> deleteStockItemRoute demoJoin ''/app'' demoServer (Some demoMarketer) ''1'' =
       (Respond 204 NoBody,
        \<lparr>sv_store = demoStore0\<lparr>stockItems := []\<rparr>,
         sv_files = demoFiles(''/app/uploads/x.png'' := None)\<rparr>)
   \<and> deleteStockItemRoute demoJoin ''/app'' demoServer (Some demoMarketer) ''2'' =
       (Respond 404 (Message ''Stock item not found''), demoServer)
   \<and> deleteStockItemRoute demoJoin ''/app'' demoServer (Some demoRep) ''1'' =
       (Respond 403 (Message ''Forbidden: Insufficient permissions''), demoServer)
   \<and> deleteStockItemRoute demoJoin ''/app'' demoServer2 (Some demoMarketer) ''2'' =
       (Next (SystemError ''EISDIR''), demoServer2)
   \<and> deleteStockItemRoute demoJoin ''/app'' demoServer2 (Some demoMarketer) ''3'' =
       (Next (SystemError ''EACCES''), demoServer2)"
proof -
  have pass: "runGates (removeGates demoServer (Some demoMarketer)) = Pass"
    and rej: "runGates (removeGates demoServer (Some demoRep)) =
        Reject 403 (Message ''Forbidden: Insufficient permissions'')"
    by (simp_all add: removeGates_def isAuthenticated_def hasPermission_def demoServer_def
        demoMarketer_def demoRep_def storageHasPermission_def lookupPermission_def
        ROLE_PERMISSIONS_def getUser_def demo_defs)
  have p1: "parseIntString ''1'' = Dec 1 0" and p2: "parseIntString ''2'' = Dec 2 0"
    by (simp_all add: js_defs Let_def)
  have found: "getStockItemJs (sv_store demoServer) (parseInt (JStr ''1'')) = Some demoItem"
    and missing: "getStockItemJs (sv_store demoServer) (parseInt (JStr ''2'')) = None"
    by (simp_all add: p1 p2 getStockItemJs_def rowId_def getStockItem_def demoServer_def demo_defs)
  have img: "si_imageUrl demoItem = Some ''/uploads/x.png''" "si_id demoItem = 1"
    "imagePath demoJoin ''/app'' ''/uploads/x.png'' = ''/app/uploads/x.png''"
    by (simp_all add: demo_defs imagePath_def replaceUploadsPrefix_def demoJoin_def)
  have regular: "sv_files demoServer ''/app/uploads/x.png'' = Some RegularFile"
    and files: "sv_files demoServer = demoFiles"
    by (simp_all add: demoServer_def demoFiles_def)
  have nodir: "\<forall>url. si_imageUrl demoItem = Some url \<and> url \<noteq> [] \<longrightarrow>
      sv_files demoServer (imagePath demoJoin ''/app'' url) = None
      \<or> sv_files demoServer (imagePath demoJoin ''/app'' url) = Some RegularFile"
    by (simp add: img regular)
  note d = delete_stock_item [where pathJoin = demoJoin and cwd = "''/app''" and sv = demoServer]
  let ?r = "deleteStockItemRoute demoJoin ''/app'' demoServer (Some demoMarketer) ''1''"
  from d [where reqUser = "Some demoMarketer" and idParam = "''1''" and item = demoItem
      and st = 0 and bd = NoBody and url = "''x''", THEN conjunct2, THEN conjunct2,
      THEN conjunct1] pass found nodir
  have ok: "fst ?r = Respond 204 NoBody"
    and items: "stockItems (sv_store (snd ?r)) =
        filter (\<lambda>x. si_id x \<noteq> si_id demoItem) (stockItems (sv_store demoServer))"
    and gone: "\<forall>url. si_imageUrl demoItem = Some url \<and> url \<noteq> [] \<longrightarrow>
        sv_files (snd ?r) = (sv_files demoServer)(imagePath demoJoin ''/app'' url := None)"
    by blast+
  from gone img files
  have files': "sv_files (snd ?r) = demoFiles(''/app/uploads/x.png'' := None)"
    by simp
  have rest: "sv_store (snd ?r) = demoStore0\<lparr>stockItems := []\<rparr>"
    using pass found
    by (simp add: deleteStockItemRoute_def deleteStockItemHandler_def deleteStockItem_def
        getStockItemJs_def rowId_def removeGates_def p1 Let_def demoServer_def demo_defs
        getStockItem_def unlinkImage_def existsSync_def unlinkSync_def demoFiles_def
        imagePath_def replaceUploadsPrefix_def demoJoin_def)
  have r1: "?r =
       (Respond 204 NoBody,
        \<lparr>sv_store = demoStore0\<lparr>stockItems := []\<rparr>,
         sv_files = demoFiles(''/app/uploads/x.png'' := None)\<rparr>)"
    using ok files' rest by (cases ?r) (auto intro: server.equality)
  from d [where reqUser = "Some demoMarketer" and idParam = "''2''" and item = demoItem
      and st = 0 and bd = NoBody and url = "''x''", THEN conjunct2, THEN conjunct1] pass missing
  have r2: "deleteStockItemRoute demoJoin ''/app'' demoServer (Some demoMarketer) ''2'' =
       (Respond 404 (Message ''Stock item not found''), demoServer)"
    by blast
  from d [where reqUser = "Some demoRep" and idParam = "''1''" and item = demoItem
      and st = 403 and bd = "Message ''Forbidden: Insufficient permissions''"
      and url = "''x''", THEN conjunct1] rej
  have r3: "deleteStockItemRoute demoJoin ''/app'' demoServer (Some demoRep) ''1'' =
       (Respond 403 (Message ''Forbidden: Insufficient permissions''), demoServer)"
    by blast
  from delete_stock_item [where pathJoin = demoJoin and cwd = "''/app''" and sv = demoServer2
      and reqUser = "Some demoMarketer" and idParam = "''2''" and item = demoFolderItem
      and st = 0 and bd = NoBody and url = "''/uploads/''", THEN conjunct2, THEN conjunct2,
      THEN conjunct2, THEN conjunct1] demoServer2_request
  have r4: "deleteStockItemRoute demoJoin ''/app'' demoServer2 (Some demoMarketer) ''2'' =
       (Next (SystemError ''EISDIR''), demoServer2)"
    by simp
  from delete_stock_item [where pathJoin = demoJoin and cwd = "''/app''" and sv = demoServer2
      and reqUser = "Some demoMarketer" and idParam = "''3''" and item = demoLockedItem
      and st = 0 and bd = NoBody and url = "''/uploads/z.png''", THEN conjunct2,
      THEN conjunct2, THEN conjunct2, THEN conjunct2] demoServer2_request
  have r5: "deleteStockItemRoute demoJoin ''/app'' demoServer2 (Some demoMarketer) ''3'' =
       (Next (SystemError ''EACCES''), demoServer2)"
    by simp
  from pass found img(3) regular r1 r2 r3 r4 r5 show ?thesis by (intro conjI)
qed

section \<open>Passwords in responses\<close>

lemma withoutPassword_safe [simp]: "\<not> hasPasswordKey (withoutPassword u)"
  by (auto simp: hasPasswordKey_def withoutPassword_def omit_def)

lemma withoutPassword_list_safe [simp]: "\<not> list_ex hasPasswordKey (map withoutPassword us)"
  by (induction us) simp_all

lemma withoutPassword_fields:
  "map fst (withoutPassword u) =
     [''id'', ''username'', ''name'', ''role'', ''region'', ''avatar'', ''specialtyId'',
      ''createdAt'']"
  by (simp add: withoutPassword_def omit_def userJson_def)

lemma withoutPassword_independent:
  "withoutPassword (u\<lparr>u_password := p\<rparr>) = withoutPassword u"
  by (simp add: withoutPassword_def omit_def userJson_def)

text \<open>
  C9. No response of \<^verbatim>\<open>GET /api/users\<close>, \<^verbatim>\<open>GET /api/users/:id\<close>,
  \<^verbatim>\<open>PUT /api/users/:id\<close>, \<^verbatim>\<open>POST /api/register\<close>, \<^verbatim>\<open>POST /api/login\<close> and
  \<^verbatim>\<open>GET /api/user\<close> carries a user object with the property \<^verbatim>\<open>password\<close>, for every
  store, request and storage implementation of the update. The stored user object does
  have that property; the object that is sent has the eight other properties, and it does
  not depend on the stored password.
\<close>

theorem responses_without_password:
  "\<not> exposesPassword (outcomeBody (getUsersRoute s reqUser roleQuery))
   \<and> \<not> exposesPassword (outcomeBody (getUserRoute toNumber s reqUser idParam))
   \<and> \<not> exposesPassword (outcomeBody (fst
         (putUserRoute scrypt saltBytes perm updateUser st reqUser idParam userData)))
   \<and> \<not> exposesPassword (outcomeBody (fst (register scrypt saltBytes now s hits b)))
   \<and> \<not> exposesPassword (outcomeBody (login scrypt s username password))
   \<and> \<not> exposesPassword (outcomeBody (currentUser reqUser))
   \<and> hasPasswordKey (userJson u)
   \<and> map fst (withoutPassword u) =
       [''id'', ''username'', ''name'', ''role'', ''region'', ''avatar'', ''specialtyId'',
        ''createdAt'']
   \<and> withoutPassword (u\<lparr>u_password := p\<rparr>) = withoutPassword u"
proof -
  have c1: "\<not> exposesPassword (outcomeBody (getUsersRoute s reqUser roleQuery))"
    by (cases reqUser)
      (auto simp: getUsersRoute_def isAuthenticated_def exposesPassword_def outcomeBody_def
        Let_def split: option.splits)
  have c2: "\<not> exposesPassword (outcomeBody (getUserRoute toNumber s reqUser idParam))"
    by (cases reqUser)
      (auto simp: getUserRoute_def isAuthenticated_def exposesPassword_def outcomeBody_def
        split: option.splits)
  have c3: "\<not> exposesPassword (outcomeBody (fst
         (putUserRoute scrypt saltBytes perm updateUser st reqUser idParam userData)))"
    by (auto simp: putUserRoute_def exposesPassword_def outcomeBody_def isAuthenticated_def
        hasPermission_def split: sum.splits prod.splits option.splits)
  have c4: "\<not> exposesPassword (outcomeBody (fst (register scrypt saltBytes now s hits b)))"
    by (auto simp: register_def authLimiter_def exposesPassword_def outcomeBody_def Let_def
        split: option.splits prod.splits)
  have c5: "\<not> exposesPassword (outcomeBody (login scrypt s username password))"
    by (auto simp: login_def exposesPassword_def outcomeBody_def
        split: option.splits sum.splits)
  have c6: "\<not> exposesPassword (outcomeBody (currentUser reqUser))"
    by (auto simp: currentUser_def exposesPassword_def outcomeBody_def split: option.splits)
  have c7: "hasPasswordKey (userJson u)"
    by (simp add: hasPasswordKey_def userJson_def)
  show ?thesis
    by (intro conjI)
      (rule c1, rule c2, rule c3, rule c4, rule c5, rule c6, rule c7,
        rule withoutPassword_fields, rule withoutPassword_independent)
qed

text \<open>
  The list of marketers as a medical rep sees it, and the password property before and
  after the rest pattern.
\<close>

theorem responses_without_password_witness:
  "getUsersRoute demoStore0 (Some demoRep) (Some (QStr ''marketer'')) =
     Respond 200 (UsersJson
       [[(''id'', JNum (Dec 3 0)), (''username'', JStr ''mark''), (''name'', JStr ''mark''),
         (''role'', JStr ''marketer''), (''region'', JNull), (''avatar'', JNull),
         (''specialtyId'', JNull), (''createdAt'', JNum (Dec 0 0))]])
   \<and> \<not> exposesPassword (outcomeBody
         (getUsersRoute demoStore0 (Some demoRep) (Some (QStr ''marketer''))))
   \<and> jsGet (userJson demoMarketer) ''password'' = JStr ''00.aa''
   \<and> jsGet (withoutPassword demoMarketer) ''password'' = JUndefined
   \<and> currentUser (Some demoMarketer) = Respond 200 (UserJson (withoutPassword demoMarketer))"
proof -
  have 1: "getUsersRoute demoStore0 (Some demoRep) (Some (QStr ''marketer'')) =
     Respond 200 (UsersJson
       [[(''id'', JNum (Dec 3 0)), (''username'', JStr ''mark''), (''name'', JStr ''mark''),
         (''role'', JStr ''marketer''), (''region'', JNull), (''avatar'', JNull),
         (''specialtyId'', JNull), (''createdAt'', JNum (Dec 0 0))]])"
    by (simp add: getUsersRoute_def isAuthenticated_def roleQuerySchema_def rolesEnum_def
        getUsersByRole_def withoutPassword_def omit_def userJson_def jsString_def jsInt_def
        demo_defs)
  have 2: "\<not> exposesPassword (outcomeBody
         (getUsersRoute demoStore0 (Some demoRep) (Some (QStr ''marketer''))))"
    by (rule responses_without_password [THEN conjunct1])
  have 3: "jsGet (userJson demoMarketer) ''password'' = JStr ''00.aa''"
    "jsGet (withoutPassword demoMarketer) ''password'' = JUndefined"
    "currentUser (Some demoMarketer) = Respond 200 (UserJson (withoutPassword demoMarketer))"
    by (simp_all add: jsGet_def withoutPassword_def omit_def userJson_def demoMarketer_def
        demoUser_def currentUser_def)
  from 1 2 3 show ?thesis by simp
qed

section \<open>Registration\<close>

lemma digitValue_hexDigit: "n < 16 \<Longrightarrow> digitValue (hexDigit n) = n"
  by (simp add: hexDigit_def digitValue_def Let_def)

lemma hexDigit_not_dot: "hexDigit n \<noteq> CHR ''.''"
proof
  assume "hexDigit n = CHR ''.''"
  then have "(of_char (hexDigit n) :: nat) = of_char (CHR ''.'')" by simp
  then show False
    by (simp add: hexDigit_def split: if_splits)
qed

lemma hexEncode_no_dot: "CHR ''.'' \<notin> set (hexEncode bs)"
  by (induction bs) (simp_all add: hexEncode_def hexDigit_not_dot [THEN not_sym])

lemma hexDecode_hexEncode: "hexDecode (hexEncode bs) = bs"
proof (induction bs)
  case Nil
  then show ?case by (simp add: hexEncode_def)
next
  case (Cons c bs)
  have "(of_char c :: nat) < 16 * 16" by simp
  then have lt: "(of_char c :: nat) div 16 < 16" by (rule less_mult_imp_div_less)
  have "char_of ((of_char c :: nat) div 16 * 16 + of_char c mod 16) = c" by simp
  with Cons lt show ?case
    by (simp add: hexEncode_def digitValue_hexDigit)
qed

lemma split_stored:
  assumes "CHR ''.'' \<notin> set a" and "CHR ''.'' \<notin> set b"
  shows "splitHashed (a @ CHR ''.'' # b) = a" and "splitSalt (a @ CHR ''.'' # b) = Some b"
proof -
  from assms have a: "\<forall>x\<in>set a. x \<noteq> CHR ''.''" and b: "\<forall>x\<in>set b. x \<noteq> CHR ''.''"
    by auto
  from a show "splitHashed (a @ CHR ''.'' # b) = a"
    by (simp add: splitHashed_def takeWhile_tail)
  from a have "dropWhile (\<lambda>c. c \<noteq> CHR ''.'') (a @ CHR ''.'' # b) = CHR ''.'' # b"
    by (simp add: dropWhile_append3)
  with b show "splitSalt (a @ CHR ''.'' # b) = Some b"
    by (simp add: splitSalt_def)
qed

lemma comparePasswords_hashPassword:
  "comparePasswords scrypt password (hashPassword scrypt saltBytes password) = Inr True"
  by (simp add: comparePasswords_def hashPassword_def Let_def split_stored hexEncode_no_dot
      hexDecode_hexEncode timingSafeEqual_def)

lemma hashPassword_has_dot: "CHR ''.'' \<in> set (hashPassword scrypt saltBytes password)"
  by (simp add: hashPassword_def Let_def)

text \<open>
  C10. A registration that is answered 201 has appended one user to the store: the user
  has the role \<^verbatim>\<open>medicalRep\<close>, and the stored password is the result of
  \<open>hashPassword\<close>, the hexadecimal \<^verbatim>\<open>scrypt\<close> key of the supplied password and the salt,
  a dot, and the salt; the supplied password verifies against it, and it differs from any
  supplied password that has no dot. A registration that is not answered 201 leaves the
  store as it was, and one within the rate limit with a free user name is answered 201.
  The role in the body is ignored: any other role value gives the same result.
\<close>

theorem register_default_role:
  "(register scrypt saltBytes now s hits b = (Respond 201 bd, s') \<longrightarrow>
      (\<exists>u. users s' = users s @ [u]
         \<and> u_username u = rb_username b
         \<and> u_role u = ''medicalRep''
         \<and> u_password u = hashPassword scrypt saltBytes (rb_password b)
         \<and> u_password u =
             hexEncode (scrypt (rb_password b) (hexEncode saltBytes) 64) @ ''.''
               @ hexEncode saltBytes
         \<and> comparePasswords scrypt (rb_password b) (u_password u) = Inr True
         \<and> (CHR ''.'' \<notin> set (rb_password b) \<longrightarrow> u_password u \<noteq> rb_password b)
         \<and> bd = UserJson (withoutPassword u)))
   \<and> ((\<forall>bd. fst (register scrypt saltBytes now s hits b) \<noteq> Respond 201 bd) \<longrightarrow>
        snd (register scrypt saltBytes now s hits b) = s)
   \<and> (hits \<le> 10 \<and> getUserByUsername s (rb_username b) = None \<longrightarrow>
        (\<exists>bd. fst (register scrypt saltBytes now s hits b) = Respond 201 bd))
   \<and> register scrypt saltBytes now s hits (b\<lparr>rb_role := r\<rparr>) =
       register scrypt saltBytes now s hits b"
proof -
  let ?h = "hashPassword scrypt saltBytes (rb_password b)"
  let ?u = "fst (createUser now s (registerInsert ?h b))"
  have fields: "u_username ?u = rb_username b" "u_role ?u = ''medicalRep''" "u_password ?u = ?h"
    "users (snd (createUser now s (registerInsert ?h b))) = users s @ [?u]"
    by (simp_all add: createUser_def registerInsert_def Let_def)
  have hex: "?h = hexEncode (scrypt (rb_password b) (hexEncode saltBytes) 64) @ ''.''
               @ hexEncode saltBytes"
    by (simp add: hashPassword_def Let_def)
  have differs: "?h \<noteq> rb_password b" if "CHR ''.'' \<notin> set (rb_password b)"
    using that hashPassword_has_dot [of scrypt saltBytes "rb_password b"] by auto
  have c1: "register scrypt saltBytes now s hits b = (Respond 201 bd, s') \<longrightarrow>
      (\<exists>u. users s' = users s @ [u]
         \<and> u_username u = rb_username b
         \<and> u_role u = ''medicalRep''
         \<and> u_password u = hashPassword scrypt saltBytes (rb_password b)
         \<and> u_password u =
             hexEncode (scrypt (rb_password b) (hexEncode saltBytes) 64) @ ''.''
               @ hexEncode saltBytes
         \<and> comparePasswords scrypt (rb_password b) (u_password u) = Inr True
         \<and> (CHR ''.'' \<notin> set (rb_password b) \<longrightarrow> u_password u \<noteq> rb_password b)
         \<and> bd = UserJson (withoutPassword u))"
  proof
    assume "register scrypt saltBytes now s hits b = (Respond 201 bd, s')"
    then have "s' = snd (createUser now s (registerInsert ?h b))"
      and "bd = UserJson (withoutPassword ?u)"
      by (auto simp: register_def authLimiter_def Let_def
          split: option.splits if_splits prod.splits)
    with fields hex differs comparePasswords_hashPassword [of scrypt "rb_password b" saltBytes]
    show "\<exists>u. users s' = users s @ [u]
         \<and> u_username u = rb_username b
         \<and> u_role u = ''medicalRep''
         \<and> u_password u = hashPassword scrypt saltBytes (rb_password b)
         \<and> u_password u =
             hexEncode (scrypt (rb_password b) (hexEncode saltBytes) 64) @ ''.''
               @ hexEncode saltBytes
         \<and> comparePasswords scrypt (rb_password b) (u_password u) = Inr True
         \<and> (CHR ''.'' \<notin> set (rb_password b) \<longrightarrow> u_password u \<noteq> rb_password b)
         \<and> bd = UserJson (withoutPassword u)"
      by (intro exI [of _ ?u]) simp
  qed
  have c2: "(\<forall>bd. fst (register scrypt saltBytes now s hits b) \<noteq> Respond 201 bd) \<longrightarrow>
        snd (register scrypt saltBytes now s hits b) = s"
    by (auto simp: register_def authLimiter_def createUser_def Let_def split: option.splits)
  have c3: "hits \<le> 10 \<and> getUserByUsername s (rb_username b) = None \<longrightarrow>
        (\<exists>bd. fst (register scrypt saltBytes now s hits b) = Respond 201 bd)"
    by (auto simp: register_def authLimiter_def createUser_def Let_def)
  have c4: "register scrypt saltBytes now s hits (b\<lparr>rb_role := r\<rparr>) =
       register scrypt saltBytes now s hits b"
    by (simp add: register_def registerInsert_def split: gate.splits option.splits)
  show ?thesis by (intro conjI) (rule c1, rule c2, rule c3, rule c4)
qed

text \<open>
  A registration that asks for the role \<^verbatim>\<open>ceo\<close> creates a medical rep whose stored
  password is not the supplied one.
\<close>

theorem register_default_role_witness:
  "rb_role demoRegistration = JStr ''ceo''
   \<and> getUserByUsername demoStore0 (rb_username demoRegistration) = None
   \<and> (\<exists>u s'. register demoScrypt demoSalt 50 demoStore0 1 demoRegistration =
                (Respond 201 (UserJson (withoutPassword u)), s')
          \<and> users s' = users demoStore0 @ [u]
          \<and> u_username u = ''newrep''
          \<and> u_role u = ''medicalRep''
          \<and> u_password u = hashPassword demoScrypt demoSalt ''secret''
          \<and> u_password u \<noteq> ''secret''
          \<and> comparePasswords demoScrypt ''secret'' (u_password u) = Inr True)"
proof -
  have role: "rb_role demoRegistration = JStr ''ceo''"
    and name: "rb_username demoRegistration = ''newrep''"
    and pw: "rb_password demoRegistration = ''secret''"
    by (simp_all add: demoRegistration_def)
  have free: "getUserByUsername demoStore0 (rb_username demoRegistration) = None"
    by (simp add: getUserByUsername_def demoRegistration_def demo_defs)
  let ?r = "register demoScrypt demoSalt 50 demoStore0 1 demoRegistration"
  note t = register_default_role [where scrypt = demoScrypt and saltBytes = demoSalt
      and now = 50 and s = demoStore0 and hits = 1 and b = demoRegistration]
  from t [THEN conjunct2, THEN conjunct2, THEN conjunct1] free
  obtain bd where bd: "fst ?r = Respond 201 bd"
    by auto
  then have eq: "?r = (Respond 201 bd, snd ?r)" by (simp add: prod_eq_iff)
  from t [where bd = bd and s' = "snd ?r", THEN conjunct1] eq
  obtain u where u: "users (snd ?r) = users demoStore0 @ [u]"
      "u_username u = rb_username demoRegistration" "u_role u = ''medicalRep''"
      "u_password u = hashPassword demoScrypt demoSalt (rb_password demoRegistration)"
      "comparePasswords demoScrypt (rb_password demoRegistration) (u_password u) = Inr True"
      "bd = UserJson (withoutPassword u)"
    by auto
  have "u_password u \<noteq> ''secret''"
    using hashPassword_has_dot [of demoScrypt demoSalt "''secret''"] u(4) pw by auto
  with eq u name pw have "?r = (Respond 201 (UserJson (withoutPassword u)), snd ?r)
          \<and> users (snd ?r) = users demoStore0 @ [u]
          \<and> u_username u = ''newrep''
          \<and> u_role u = ''medicalRep''
          \<and> u_password u = hashPassword demoScrypt demoSalt ''secret''
          \<and> u_password u \<noteq> ''secret''
          \<and> comparePasswords demoScrypt ''secret'' (u_password u) = Inr True"
    by simp
  then have "\<exists>u s'. ?r = (Respond 201 (UserJson (withoutPassword u)), s')
          \<and> users s' = users demoStore0 @ [u]
          \<and> u_username u = ''newrep''
          \<and> u_role u = ''medicalRep''
          \<and> u_password u = hashPassword demoScrypt demoSalt ''secret''
          \<and> u_password u \<noteq> ''secret''
          \<and> comparePasswords demoScrypt ''secret'' (u_password u) = Inr True"
    by blast
  with role free show ?thesis by simp
qed

end
